theory Spec2Isabelle
  imports Complex_Main "HOL-Library.AList"
begin

section \<open>JavaScript values used by the resolver\<close>

text \<open>
  A JavaScript number is a finite value, one of the two infinities, or NaN. Finite values
  are exact rationals here: the rounding of IEEE doubles and the sign of zero are not
  modelled. Comparisons with NaN are false, as in JavaScript.
\<close>

datatype jsnum = Fin rat | PInf | NInf | NaN

fun jneg :: "jsnum \<Rightarrow> jsnum" where
  "jneg (Fin a) = Fin (- a)"
| "jneg PInf = NInf"
| "jneg NInf = PInf"
| "jneg NaN = NaN"

fun jadd :: "jsnum \<Rightarrow> jsnum \<Rightarrow> jsnum" where
  "jadd (Fin a) (Fin b) = Fin (a + b)"
| "jadd NaN _ = NaN"
| "jadd _ NaN = NaN"
| "jadd PInf NInf = NaN"
| "jadd NInf PInf = NaN"
| "jadd PInf _ = PInf"
| "jadd NInf _ = NInf"
| "jadd _ PInf = PInf"
| "jadd _ NInf = NInf"

definition jsub :: "jsnum \<Rightarrow> jsnum \<Rightarrow> jsnum" where
  "jsub a b = jadd a (jneg b)"

fun jmul :: "jsnum \<Rightarrow> jsnum \<Rightarrow> jsnum" where
  "jmul (Fin a) (Fin b) = Fin (a * b)"
| "jmul NaN _ = NaN"
| "jmul _ NaN = NaN"
| "jmul (Fin a) PInf = (if a = 0 then NaN else if 0 < a then PInf else NInf)"
| "jmul (Fin a) NInf = (if a = 0 then NaN else if 0 < a then NInf else PInf)"
| "jmul PInf (Fin b) = (if b = 0 then NaN else if 0 < b then PInf else NInf)"
| "jmul NInf (Fin b) = (if b = 0 then NaN else if 0 < b then NInf else PInf)"
| "jmul PInf PInf = PInf"
| "jmul PInf NInf = NInf"
| "jmul NInf PInf = NInf"
| "jmul NInf NInf = PInf"

fun jdiv :: "jsnum \<Rightarrow> jsnum \<Rightarrow> jsnum" where
  "jdiv (Fin a) (Fin b) =
     (if b \<noteq> 0 then Fin (a / b)
      else if a = 0 then NaN else if 0 < a then PInf else NInf)"
| "jdiv NaN _ = NaN"
| "jdiv _ NaN = NaN"
| "jdiv (Fin a) PInf = Fin 0"
| "jdiv (Fin a) NInf = Fin 0"
| "jdiv PInf (Fin b) = (if 0 \<le> b then PInf else NInf)"
| "jdiv NInf (Fin b) = (if 0 \<le> b then NInf else PInf)"
| "jdiv PInf PInf = NaN"
| "jdiv PInf NInf = NaN"
| "jdiv NInf PInf = NaN"
| "jdiv NInf NInf = NaN"

text \<open>\<open>a < b\<close> and \<open>a <= b\<close> on numbers.\<close>

fun jlt :: "jsnum \<Rightarrow> jsnum \<Rightarrow> bool" where
  "jlt (Fin a) (Fin b) = (a < b)"
| "jlt NaN _ = False"
| "jlt _ NaN = False"
| "jlt PInf _ = False"
| "jlt _ NInf = False"
| "jlt NInf _ = True"
| "jlt (Fin a) PInf = True"

fun jle :: "jsnum \<Rightarrow> jsnum \<Rightarrow> bool" where
  "jle (Fin a) (Fin b) = (a \<le> b)"
| "jle NaN _ = False"
| "jle _ NaN = False"
| "jle NInf _ = True"
| "jle _ PInf = True"
| "jle PInf _ = False"
| "jle (Fin a) NInf = False"

text \<open>Truthiness of a number: \<open>0\<close> and NaN are falsy.\<close>

fun truthyNum :: "jsnum \<Rightarrow> bool" where
  "truthyNum (Fin a) = (a \<noteq> 0)"
| "truthyNum NaN = False"
| "truthyNum PInf = True"
| "truthyNum NInf = True"

text \<open>
  A thrown value: an \<open>Error\<close> object with its message, or some other value
  (for which \<open>error instanceof Error\<close> is false).
\<close>

datatype exn = Error string | ThrownValue

text \<open>
  Built-in functions of the JavaScript runtime that the code calls and that are not part of
  the repository: \<open>parseFloat\<close>, \<open>Number.prototype.toFixed(2)\<close> and the conversion of a
  number to a string in a template literal.
\<close>

record js_builtins =
  parseFloat :: "string \<Rightarrow> jsnum"
  toFixed2 :: "jsnum \<Rightarrow> string"
  numToString :: "jsnum \<Rightarrow> string"

text \<open>A chain id is \<open>string | number\<close>; \<open>typeof chainId === 'string'\<close> selects Cosmos.\<close>

datatype chain_id = ChainNum jsnum | ChainStr string

fun isStringChain :: "chain_id \<Rightarrow> bool" where
  "isStringChain (ChainStr _) = True"
| "isStringChain (ChainNum _) = False"

fun chainToString :: "js_builtins \<Rightarrow> chain_id \<Rightarrow> string" where
  "chainToString js (ChainStr s) = s"
| "chainToString js (ChainNum n) = numToString js n"

section \<open>Data model (types.ts)\<close>

record TimeLocks =
  srcWithdrawal :: jsnum
  srcPublicWithdrawal :: jsnum
  srcCancellation :: jsnum
  srcPublicCancellation :: jsnum
  dstWithdrawal :: jsnum
  dstPublicWithdrawal :: jsnum
  dstCancellation :: jsnum

text \<open>
  The fields of \<open>CrossChainOrder\<close>. The record is polymorphic in the types of its required
  fields (the order hash, the other strings, the number and the chain ids), so that the
  same field names serve three readings: an order as its TypeScript type declares it (every
  required field present), an order as it arrives at \<open>submitOrder\<close> from outside, where a
  required field may be \<open>undefined\<close>, and an order object whose \<open>orderHash\<close> alone may be
  \<open>undefined\<close> (the compiled code does not check the declared type of its arguments).
\<close>

record ('h, 's, 'n, 'c) OrderFields =
  orderHash :: 'h
  maker :: 's
  srcChainId :: 'c
  dstChainId :: 'c
  srcToken :: 's
  dstToken :: 's
  srcAmount :: 's
  dstAmount :: 's
  deadline :: 'n
  secretHash :: 's
  signature :: 's
  escrowFactory :: "string option"
  timeLocks :: "TimeLocks option"
  createdAt :: "jsnum option"
  nonce :: "string option"
  status :: string
  estimatedGasCost :: string
  profitability :: "jsnum option"

type_synonym CrossChainOrder = "(string, string, jsnum, chain_id) OrderFields"

type_synonym SubmittedOrder =
  "(string option, string option, jsnum option, chain_id option) OrderFields"


record TokenPrice =
  priceUsd :: jsnum
  source :: string

record LiquidityStatus =
  hasSourceLiquidity :: bool
  hasDestinationLiquidity :: bool
  liquidityRatio :: jsnum
  estimatedSlippage :: jsnum

record GasEstimate =
  sourceGasUnits :: jsnum
  sourceGasPrice :: string
  sourceGasUsd :: jsnum
  destinationGasUnits :: jsnum
  destinationGasPrice :: string
  destinationGasUsd :: jsnum
  claimGasUnits :: jsnum
  claimGasUsd :: jsnum
  totalGasUsd :: jsnum

record ResolverDecision =
  orderHash_d :: string
  shouldFill :: bool
  reason :: string
  expectedProfitUsd :: jsnum
  profitMarginPercent :: jsnum
  estimatedGasCost_d :: jsnum
  srcTokenPrice :: "TokenPrice option"
  dstTokenPrice :: "TokenPrice option"
  liquidityStatus :: "LiquidityStatus option"
  optimalRoute :: "string option"
  analysisTimeMs :: int
  timestamp :: int

section \<open>ProfitabilityAnalyzer\<close>

definition CACHE_TTL :: int where
  "CACHE_TTL = 30000"

definition MIN_PROFIT_USD :: jsnum where
  "MIN_PROFIT_USD = Fin 5"

definition MIN_PROFIT_MARGIN :: jsnum where
  "MIN_PROFIT_MARGIN = Fin (1 / 2)"

text \<open>
  The state of the analyzer is its two caches. A price entry is \<open>{price, timestamp}\<close>, a
  gas entry \<open>{estimate, timestamp}\<close>.
\<close>

record analyzer_state =
  priceCache :: "string \<rightharpoonup> (jsnum \<times> int)"
  gasCache :: "string \<rightharpoonup> (GasEstimate \<times> int)"

text \<open>
  The CoinGecko request is outside the repository. \<open>coingecko\<close> gives, for a coin id, what
  \<open>response.data[coinId]?.usd\<close> evaluates to: a thrown error (network failure, timeout,
  malformed response), \<open>undefined\<close>, or a number.
\<close>

type_synonym coingecko = "string \<Rightarrow> exn + jsnum option"

text \<open>\<open>x || 1\<close> for a price read from the response.\<close>

fun orOne :: "jsnum option \<Rightarrow> jsnum" where
  "orOne None = Fin 1"
| "orOne (Some n) = (if truthyNum n then n else Fin 1)"

definition cosmosTokens :: "string \<rightharpoonup> string" where
  "cosmosTokens = [''uatom'' \<mapsto> ''cosmos'', ''uosmo'' \<mapsto> ''osmosis'',
     ''ujuno'' \<mapsto> ''juno-network'']"

definition fetchCosmosTokenPrice :: "coingecko \<Rightarrow> string \<Rightarrow> exn + jsnum" where
  "fetchCosmosTokenPrice http denom =
     (case cosmosTokens denom of
        None \<Rightarrow> Inr (Fin 1)
      | Some coinId \<Rightarrow>
          (case http coinId of Inl e \<Rightarrow> Inl e | Inr v \<Rightarrow> Inr (orOne v)))"

definition coinGeckoIds :: "string \<rightharpoonup> string" where
  "coinGeckoIds = [
     ''0xC02aaA39b223FE8D0A0e5C4F27eAD9083C756Cc2'' \<mapsto> ''ethereum'',
     ''0xA0b86a33E6C30ff8f73C4F65F5642D8AE4b3cB9D'' \<mapsto> ''ethereum'',
     ''0x7b79995e5f793a07bc00c21412e50ecae098e7f9'' \<mapsto> ''ethereum'',
     ''0x8AC76a51cc950d9822D68b83fE1Ad97B32Cd580d'' \<mapsto> ''usd-coin'']"

definition fetchTokenPrice :: "coingecko \<Rightarrow> string \<Rightarrow> chain_id \<Rightarrow> exn + jsnum" where
  "fetchTokenPrice http tokenAddress chainId =
     (if isStringChain chainId then fetchCosmosTokenPrice http tokenAddress
      else
        (case coinGeckoIds tokenAddress of
           None \<Rightarrow> Inl (Error (''Unknown token: '' @ tokenAddress))
         | Some coinId \<Rightarrow>
             (case http coinId of Inl e \<Rightarrow> Inl e | Inr v \<Rightarrow> Inr (orOne v))))"

text \<open>
  \<open>getTokenPrice\<close> returns the price and, when it fetched one, the cache entry it stores.
  The write is returned apart from the cache because \<open>analyzeOrder\<close> starts both lookups
  with \<open>Promise.all\<close>: each reads the cache before either request has completed.
\<close>

definition priceCacheKey :: "js_builtins \<Rightarrow> string \<Rightarrow> chain_id \<Rightarrow> string" where
  "priceCacheKey js tokenAddress chainId = chainToString js chainId @ ''-'' @ tokenAddress"

definition cacheFresh :: "int \<Rightarrow> int \<Rightarrow> bool" where
  "cacheFresh now ts = (now - ts < CACHE_TTL)"

definition getTokenPrice ::
  "js_builtins \<Rightarrow> coingecko \<Rightarrow> int \<Rightarrow> (string \<rightharpoonup> (jsnum \<times> int)) \<Rightarrow> string \<Rightarrow> chain_id
     \<Rightarrow> TokenPrice \<times> (string \<times> (jsnum \<times> int)) option" where
  "getTokenPrice js http now cache tokenAddress chainId =
     (let cacheKey = priceCacheKey js tokenAddress chainId in
      case cache cacheKey of
        Some (price, ts) \<Rightarrow>
          (if cacheFresh now ts then (\<lparr>priceUsd = price, source = ''cache''\<rparr>, None)
           else
             (case fetchTokenPrice http tokenAddress chainId of
                Inr price' \<Rightarrow>
                  (\<lparr>priceUsd = price', source = ''api''\<rparr>, Some (cacheKey, (price', now)))
              | Inl e \<Rightarrow> (\<lparr>priceUsd = Fin 1, source = ''fallback''\<rparr>, None)))
      | None \<Rightarrow>
          (case fetchTokenPrice http tokenAddress chainId of
             Inr price' \<Rightarrow>
               (\<lparr>priceUsd = price', source = ''api''\<rparr>, Some (cacheKey, (price', now)))
           | Inl e \<Rightarrow> (\<lparr>priceUsd = Fin 1, source = ''fallback''\<rparr>, None)))"

fun storePrice ::
  "(string \<rightharpoonup> (jsnum \<times> int)) \<Rightarrow> (string \<times> (jsnum \<times> int)) option
     \<Rightarrow> (string \<rightharpoonup> (jsnum \<times> int))" where
  "storePrice cache None = cache"
| "storePrice cache (Some (k, v)) = cache(k \<mapsto> v)"

record ChainGas =
  gasUnits :: jsnum
  gasPrice :: string
  gasCostUsd :: jsnum

definition estimateChainGasCost :: "chain_id \<Rightarrow> string \<Rightarrow> exn + ChainGas" where
  "estimateChainGasCost chainId operation =
     (if isStringChain chainId then
        Inr \<lparr>gasUnits = Fin 100000, gasPrice = ''0.025uatom'', gasCostUsd = Fin (1 / 2)\<rparr>
      else
        Inr \<lparr>gasUnits = (if operation = ''escrow_claim'' then Fin 150000 else Fin 200000),
             gasPrice = ''20000000000'',
             gasCostUsd = (if operation = ''escrow_claim'' then Fin 2 else Fin 3)\<rparr>)"

definition fallbackGasEstimate :: GasEstimate where
  "fallbackGasEstimate =
     \<lparr>sourceGasUnits = Fin 200000, sourceGasPrice = ''20000000000'', sourceGasUsd = Fin 3,
      destinationGasUnits = Fin 100000, destinationGasPrice = ''0.025'',
      destinationGasUsd = Fin (1 / 2),
      claimGasUnits = Fin 150000, claimGasUsd = Fin 2, totalGasUsd = Fin (11 / 2)\<rparr>"

text \<open>The body of the \<open>try\<close> block of \<open>estimateGasCosts\<close>, after a cache miss.\<close>

definition estimateGasCosts_try :: "CrossChainOrder \<Rightarrow> exn + GasEstimate" where
  "estimateGasCosts_try order =
     (case estimateChainGasCost (srcChainId order) ''escrow_lock'' of
        Inl e \<Rightarrow> Inl e
      | Inr sourceGas \<Rightarrow>
     (case estimateChainGasCost (dstChainId order) ''escrow_lock'' of
        Inl e \<Rightarrow> Inl e
      | Inr destGas \<Rightarrow>
     (case estimateChainGasCost (srcChainId order) ''escrow_claim'' of
        Inl e \<Rightarrow> Inl e
      | Inr claimGas \<Rightarrow>
          Inr \<lparr>sourceGasUnits = gasUnits sourceGas, sourceGasPrice = gasPrice sourceGas,
               sourceGasUsd = gasCostUsd sourceGas,
               destinationGasUnits = gasUnits destGas, destinationGasPrice = gasPrice destGas,
               destinationGasUsd = gasCostUsd destGas,
               claimGasUnits = gasUnits claimGas, claimGasUsd = gasCostUsd claimGas,
               totalGasUsd =
                 jadd (jadd (gasCostUsd sourceGas) (gasCostUsd destGas))
                   (gasCostUsd claimGas)\<rparr>)))"

definition gasCacheKey :: "js_builtins \<Rightarrow> CrossChainOrder \<Rightarrow> string" where
  "gasCacheKey js order =
     ''gas-'' @ chainToString js (srcChainId order) @ ''-'' @ chainToString js (dstChainId order)"

definition estimateGasCosts ::
  "js_builtins \<Rightarrow> int \<Rightarrow> (string \<rightharpoonup> (GasEstimate \<times> int)) \<Rightarrow> CrossChainOrder
     \<Rightarrow> GasEstimate \<times> (string \<rightharpoonup> (GasEstimate \<times> int))" where
  "estimateGasCosts js now cache order =
     (let cacheKey = gasCacheKey js order;
          miss = (case estimateGasCosts_try order of
                    Inr estimate \<Rightarrow> (estimate, cache(cacheKey \<mapsto> (estimate, now)))
                  | Inl e \<Rightarrow> (fallbackGasEstimate, cache))
      in case cache cacheKey of
           Some (estimate, ts) \<Rightarrow> (if cacheFresh now ts then (estimate, cache) else miss)
         | None \<Rightarrow> miss)"

definition checkLiquidityAvailability :: "CrossChainOrder \<Rightarrow> LiquidityStatus" where
  "checkLiquidityAvailability order =
     \<lparr>hasSourceLiquidity = True, hasDestinationLiquidity = True,
      liquidityRatio = Fin (6 / 5), estimatedSlippage = Fin (1 / 10)\<rparr>"

definition shouldFillOrder :: "jsnum \<Rightarrow> jsnum \<Rightarrow> LiquidityStatus \<Rightarrow> bool" where
  "shouldFillOrder netProfitUsd profitMarginPercent' liquidityCheck =
     (if jlt netProfitUsd MIN_PROFIT_USD then False
      else if jlt profitMarginPercent' MIN_PROFIT_MARGIN then False
      else if \<not> hasSourceLiquidity liquidityCheck \<or> \<not> hasDestinationLiquidity liquidityCheck
        then False
      else True)"

definition getRejectReason ::
  "js_builtins \<Rightarrow> jsnum \<Rightarrow> jsnum \<Rightarrow> LiquidityStatus \<Rightarrow> string" where
  "getRejectReason js netProfitUsd profitMarginPercent' liquidityCheck =
     (if jlt netProfitUsd MIN_PROFIT_USD then
        ''Insufficient profit: $'' @ toFixed2 js netProfitUsd @ '' < $5''
      else if jlt profitMarginPercent' MIN_PROFIT_MARGIN then
        ''Low margin: '' @ toFixed2 js profitMarginPercent' @ ''% < 0.5%''
      else if \<not> hasDestinationLiquidity liquidityCheck then
        ''Insufficient destination liquidity''
      else ''Unknown rejection reason'')"

definition selectOptimalRoute :: "CrossChainOrder \<Rightarrow> string" where
  "selectOptimalRoute order =
     (if srcChainId order = ChainNum (Fin 1) \<and> dstChainId order = ChainStr ''cosmoshub-4''
      then ''gravity'' else ''axelar'')"

text \<open>
  The \<open>try\<close> block of \<open>analyzeOrder\<close>. \<open>now\<close> is the clock while the order is analysed and
  \<open>startTime\<close> the reading taken on entry. Every call made in the block handles its own
  failures, so the block itself always reaches its \<open>return\<close>.
\<close>

definition analyzeOrder_try ::
  "js_builtins \<Rightarrow> coingecko \<Rightarrow> int \<Rightarrow> int \<Rightarrow> analyzer_state \<Rightarrow> CrossChainOrder
     \<Rightarrow> exn + (ResolverDecision \<times> analyzer_state)" where
  "analyzeOrder_try js http startTime now st order =
     (let (srcPrice, w1) = getTokenPrice js http now (priceCache st) (srcToken order)
                             (srcChainId order);
          (dstPrice, w2) = getTokenPrice js http now (priceCache st) (dstToken order)
                             (dstChainId order);
          srcAmountUsd = jmul (parseFloat js (srcAmount order)) (priceUsd srcPrice);
          dstAmountUsd = jmul (parseFloat js (dstAmount order)) (priceUsd dstPrice);
          (gasEstimate, gc) = estimateGasCosts js now (gasCache st) order;
          totalGasCostUsd = jadd (sourceGasUsd gasEstimate) (destinationGasUsd gasEstimate);
          grossProfitUsd = jsub srcAmountUsd dstAmountUsd;
          netProfitUsd = jsub grossProfitUsd totalGasCostUsd;
          profitMarginPercent' = jmul (jdiv netProfitUsd srcAmountUsd) (Fin 100);
          liquidityCheck = checkLiquidityAvailability order;
          shouldFill' = shouldFillOrder netProfitUsd profitMarginPercent' liquidityCheck
      in Inr
        (\<lparr>orderHash_d = orderHash order,
          shouldFill = shouldFill',
          reason = (if shouldFill' then ''Profitable order''
                    else getRejectReason js netProfitUsd profitMarginPercent' liquidityCheck),
          expectedProfitUsd = netProfitUsd,
          profitMarginPercent = profitMarginPercent',
          estimatedGasCost_d = totalGasCostUsd,
          srcTokenPrice = Some srcPrice,
          dstTokenPrice = Some dstPrice,
          liquidityStatus = Some liquidityCheck,
          optimalRoute = Some (selectOptimalRoute order),
          analysisTimeMs = now - startTime,
          timestamp = now\<rparr>,
         \<lparr>priceCache = storePrice (storePrice (priceCache st) w1) w2, gasCache = gc\<rparr>))"

text \<open>The \<open>catch\<close> block of \<open>analyzeOrder\<close>.\<close>

fun errorMessage :: "exn \<Rightarrow> string" where
  "errorMessage (Error m) = m"
| "errorMessage ThrownValue = ''Unknown error''"

definition analyzeOrder_catch :: "int \<Rightarrow> int \<Rightarrow> CrossChainOrder \<Rightarrow> exn \<Rightarrow> ResolverDecision" where
  "analyzeOrder_catch startTime now order e =
     \<lparr>orderHash_d = orderHash order,
      shouldFill = False,
      reason = ''Analysis error: '' @ errorMessage e,
      expectedProfitUsd = Fin 0,
      profitMarginPercent = Fin 0,
      estimatedGasCost_d = Fin 0,
      srcTokenPrice = None,
      dstTokenPrice = None,
      liquidityStatus = None,
      optimalRoute = None,
      analysisTimeMs = now - startTime,
      timestamp = now\<rparr>"

text \<open>
  \<open>analyzeOrder\<close>: the result is \<open>Inl\<close> when an exception leaves the function, \<open>Inr\<close> when
  it returns a decision (with the caches as it leaves them).
\<close>

definition analyzeOrder ::
  "js_builtins \<Rightarrow> coingecko \<Rightarrow> int \<Rightarrow> int \<Rightarrow> analyzer_state \<Rightarrow> CrossChainOrder
     \<Rightarrow> exn + (ResolverDecision \<times> analyzer_state)" where
  "analyzeOrder js http startTime now st order =
     (case analyzeOrder_try js http startTime now st order of
        Inr r \<Rightarrow> Inr r
      | Inl e \<Rightarrow> Inr (analyzeOrder_catch startTime now order e, st))"






section \<open>OrderMonitor: validation of a submitted order\<close>

text \<open>
  \<open>!order[field]\<close> is true when the field is \<open>undefined\<close> and also when it holds a falsy
  value of its declared type: the empty string, \<open>0\<close> or NaN.
\<close>

fun truthyStr :: "string option \<Rightarrow> bool" where
  "truthyStr None = False"
| "truthyStr (Some s) = (s \<noteq> [])"

fun truthyNumber :: "jsnum option \<Rightarrow> bool" where
  "truthyNumber None = False"
| "truthyNumber (Some n) = truthyNum n"

fun truthyChain :: "chain_id option \<Rightarrow> bool" where
  "truthyChain None = False"
| "truthyChain (Some (ChainNum n)) = truthyNum n"
| "truthyChain (Some (ChainStr s)) = (s \<noteq> [])"

definition required :: "string list" where
  "required = [''orderHash'', ''maker'', ''srcChainId'', ''dstChainId'',
     ''srcToken'', ''dstToken'', ''srcAmount'', ''dstAmount'',
     ''deadline'', ''secretHash'', ''signature'']"

text \<open>Whether \<open>order[field]\<close> is truthy, for the field names of the \<open>required\<close> list.\<close>

definition fieldTruthy :: "SubmittedOrder \<Rightarrow> string \<Rightarrow> bool" where
  "fieldTruthy order field =
     (if field = ''orderHash'' then truthyStr (orderHash order)
      else if field = ''maker'' then truthyStr (maker order)
      else if field = ''srcChainId'' then truthyChain (srcChainId order)
      else if field = ''dstChainId'' then truthyChain (dstChainId order)
      else if field = ''srcToken'' then truthyStr (srcToken order)
      else if field = ''dstToken'' then truthyStr (dstToken order)
      else if field = ''srcAmount'' then truthyStr (srcAmount order)
      else if field = ''dstAmount'' then truthyStr (dstAmount order)
      else if field = ''deadline'' then truthyNumber (deadline order)
      else if field = ''secretHash'' then truthyStr (secretHash order)
      else if field = ''signature'' then truthyStr (signature order)
      else False)"

text \<open>\<open>order.deadline <= Date.now()\<close>; a comparison with \<open>undefined\<close> is false.\<close>

fun deadlinePassed :: "jsnum option \<Rightarrow> int \<Rightarrow> bool" where
  "deadlinePassed None now = False"
| "deadlinePassed (Some d) now = jle d (Fin (of_int now))"

text \<open>\<open>parseFloat(x) <= 0\<close>; \<open>parseFloat(undefined)\<close> is NaN.\<close>

fun amountNotPositive :: "js_builtins \<Rightarrow> string option \<Rightarrow> bool" where
  "amountNotPositive js None = False"
| "amountNotPositive js (Some a) = jle (parseFloat js a) (Fin 0)"

definition supportedChains :: "chain_id list" where
  "supportedChains = [ChainNum (Fin 1), ChainNum (Fin 11155111), ChainNum (Fin 56),
     ChainNum (Fin 137), ChainStr ''cosmoshub-4'', ChainStr ''osmosis-1'']"

fun chainSupported :: "chain_id option \<Rightarrow> bool" where
  "chainSupported None = False"
| "chainSupported (Some c) = (c \<in> set supportedChains)"

text \<open>
  \<open>validateOrder\<close> throws (\<open>Inl\<close>) or returns. It reads the order and the clock and calls
  nothing else.
\<close>

definition validateOrder :: "js_builtins \<Rightarrow> int \<Rightarrow> SubmittedOrder \<Rightarrow> exn + unit" where
  "validateOrder js now order =
     (case find (\<lambda>field. \<not> fieldTruthy order field) required of
        Some field \<Rightarrow> Inl (Error (''Missing required field: '' @ field))
      | None \<Rightarrow>
          if deadlinePassed (deadline order) now then
            Inl (Error ''Order deadline has already passed'')
          else if amountNotPositive js (srcAmount order)
                  \<or> amountNotPositive js (dstAmount order) then
            Inl (Error ''Invalid order amounts'')
          else if \<not> chainSupported (srcChainId order) \<or> \<not> chainSupported (dstChainId order)
            then Inl (Error ''Unsupported chain ID'')
          else Inr ())"

record SubmitResult =
  success :: bool
  message :: string

text \<open>
  \<open>submitOrder\<close>: validation, then three log lines and the acknowledgement. The \<open>catch\<close>
  block turns whatever was thrown into a failure result.
\<close>

definition submitOrder :: "js_builtins \<Rightarrow> int \<Rightarrow> SubmittedOrder \<Rightarrow> SubmitResult" where
  "submitOrder js now order =
     (case validateOrder js now order of
        Inl e \<Rightarrow>
          \<lparr>success = False,
           message = (case e of Error m \<Rightarrow> m | ThrownValue \<Rightarrow> ''Invalid order format'')\<rparr>
      | Inr u \<Rightarrow>
          (case orderHash order of
             None \<Rightarrow>
               \<lparr>success = False,
                message = ''Cannot read properties of undefined (reading 'slice')''\<rparr>
           | Some h \<Rightarrow>
               \<lparr>success = True,
                message = ''Order '' @ take 10 h @ '' queued for processing''\<rparr>))"

section \<open>EscrowExecutor\<close>

datatype side = Source | Destination

record TransactionResult =
  hash :: string
  chainId_tx :: string
  blockNumber :: int
  gasUsed :: string
  status_tx :: string

text \<open>
  What the executor does to the outside world is recorded as a list of events, oldest
  first: each call of a chain client (ethers, cosmjs), the call of \<open>claimFromCosmosEscrow\<close>
  (which only writes a log line), and the log lines that mark the progress of a swap.
\<close>

datatype log_line =
    BothEscrowsConfirmed
  | SecretRevealed
  | FailedToRevealSecret
  | SwapCompletedSuccessfully
  | AtomicSwapFailed
  | EscrowsCancelled
  | FailedToCancelEscrows
  | CouldNotCancelEscrow side
  | SwapFailureLogged
  | OrderNotProfitable
  | NewOrderDetected string
  | FailedToProcessOrder

datatype event =
    AllowanceQuery string string
  | Approve string string int
  | LockFunds side string
  | SignAndBroadcast side
  | GetTransactionReceipt string
  | ClaimFunds side string
  | CosmosClaimSimulated side
  | Refund side string
  | Logged log_line

record BroadcastResult =
  code :: int
  rawLog :: string
  transactionHash :: string
  height :: int
  gasUsed_b :: int

text \<open>
  The chain clients are outside the repository; \<open>chain_env\<close> gives the outcome of each of
  their calls, a thrown error or a value. \<open>getTransactionReceipt\<close> depends on the time of
  the call; its value is the \<open>status\<close> of the receipt, \<open>None\<close> for a \<open>null\<close> receipt.
  \<open>pollDelay\<close> is the time a polling round takes beyond its five-second sleep. The first
  argument of \<open>signAndBroadcast\<close>, the leg, is not an argument of the client's call: it lets
  the broadcasts for the two legs of a swap differ in outcome.
\<close>

record chain_env =
  escrowContracts_ethereum :: string
  escrowContracts_sepolia :: string
  escrowContracts_bsc :: string
  signerAddress :: string
  parseUnits :: "string \<Rightarrow> nat \<Rightarrow> exn + int"
  allowance :: "string \<Rightarrow> string \<Rightarrow> string \<Rightarrow> exn + int"
  approve :: "string \<Rightarrow> string \<Rightarrow> int \<Rightarrow> exn + string"
  lockFunds :: "string \<Rightarrow> string \<Rightarrow> string \<Rightarrow> int \<Rightarrow> int \<Rightarrow> string \<Rightarrow> int \<Rightarrow> exn + string"
  claimFunds :: "string \<Rightarrow> string \<Rightarrow> exn + string"
  refund :: "string \<Rightarrow> string \<Rightarrow> exn + string"
  getTransactionReceipt :: "int \<Rightarrow> string \<Rightarrow> exn + int option"
  cosmosAccount :: "exn + string"
  signAndBroadcast :: "side \<Rightarrow> string \<Rightarrow> string \<Rightarrow> int \<Rightarrow> string \<Rightarrow> exn + BroadcastResult"
  randomBytes32 :: string
  pollDelay :: "int \<Rightarrow> nat"

type_synonym 'a action = "event list \<times> (exn + 'a)"

text \<open>Sequencing of two steps: the second runs only when the first did not throw.\<close>

definition andThen :: "'a action \<Rightarrow> ('a \<Rightarrow> 'b action) \<Rightarrow> 'b action" where
  "andThen m f =
     (case m of
        (tr, Inl e) \<Rightarrow> (tr, Inl e)
      | (tr, Inr x) \<Rightarrow> (case f x of (tr', r) \<Rightarrow> (tr @ tr', r)))"

definition ZeroAddress :: string where
  "ZeroAddress = ''0x0000000000000000000000000000000000000000''"

definition getEscrowAddress :: "chain_env \<Rightarrow> js_builtins \<Rightarrow> chain_id \<Rightarrow> exn + string" where
  "getEscrowAddress env js chainId =
     (let key = chainToString js chainId;
          address = (if chainId = ChainNum (Fin 1) \<or> chainId = ChainStr ''1''
                       then escrowContracts_ethereum env
                     else if chainId = ChainNum (Fin 11155111) \<or> chainId = ChainStr ''11155111''
                       then escrowContracts_sepolia env
                     else if chainId = ChainNum (Fin 56) \<or> chainId = ChainStr ''56''
                       then escrowContracts_bsc env
                     else [])
      in if address = [] then Inl (Error (''No escrow contract for chain '' @ key))
         else Inr address)"

definition approveToken :: "chain_env \<Rightarrow> string \<Rightarrow> string \<Rightarrow> string \<Rightarrow> unit action" where
  "approveToken env tokenAddress spender amount =
     andThen ([AllowanceQuery tokenAddress spender],
              allowance env tokenAddress (signerAddress env) spender)
       (\<lambda>currentAllowance.
     andThen ([], parseUnits env amount 18)
       (\<lambda>requiredAmount.
          if currentAllowance < requiredAmount then
            andThen ([Approve tokenAddress spender requiredAmount],
                     approve env tokenAddress spender requiredAmount)
              (\<lambda>txh. ([], Inr ()))
          else ([], Inr ())))"

definition sideChainId :: "CrossChainOrder \<Rightarrow> side \<Rightarrow> chain_id" where
  "sideChainId order type = (if type = Source then srcChainId order else dstChainId order)"

definition sideAmount :: "CrossChainOrder \<Rightarrow> side \<Rightarrow> string" where
  "sideAmount order type = (if type = Source then srcAmount order else dstAmount order)"

definition sideToken :: "CrossChainOrder \<Rightarrow> side \<Rightarrow> string" where
  "sideToken order type = (if type = Source then srcToken order else dstToken order)"

definition lockEvmEscrow ::
  "chain_env \<Rightarrow> js_builtins \<Rightarrow> int \<Rightarrow> CrossChainOrder \<Rightarrow> side \<Rightarrow> TransactionResult action" where
  "lockEvmEscrow env js now order type =
     (let chainId = sideChainId order type;
          amount = sideAmount order type;
          token = sideToken order type
      in
     andThen ([], getEscrowAddress env js chainId)
       (\<lambda>escrowAddress.
     let timelock = now div 1000 + 7200 in
     andThen (if token \<noteq> ZeroAddress then approveToken env token escrowAddress amount
              else ([], Inr ()))
       (\<lambda>u.
     andThen ([], parseUnits env amount 18)
       (\<lambda>units.
     andThen ([], if token = ZeroAddress then parseUnits env amount 18 else Inr 0)
       (\<lambda>val.
     andThen ([LockFunds type escrowAddress],
              lockFunds env escrowAddress (secretHash order) token units timelock
                (if type = Source then signerAddress env else maker order) val)
       (\<lambda>txh.
          ([], Inr \<lparr>hash = txh, chainId_tx = chainToString js chainId, blockNumber = 0,
                    gasUsed = ''300000'', status_tx = ''pending''\<rparr>)))))))"

definition lockCosmosEscrow ::
  "chain_env \<Rightarrow> js_builtins \<Rightarrow> CrossChainOrder \<Rightarrow> side \<Rightarrow> TransactionResult action" where
  "lockCosmosEscrow env js order type =
     (let amount = sideAmount order type;
          denom = sideToken order type
      in
     andThen ([], cosmosAccount env)
       (\<lambda>resolverAddress.
     andThen ([], parseUnits env amount 6)
       (\<lambda>units.
     andThen ([SignAndBroadcast type],
              signAndBroadcast env type resolverAddress denom units
                (''Escrow lock for order '' @ take 10 (orderHash order)))
       (\<lambda>result.
          if code result \<noteq> 0 then
            ([], Inl (Error (''Cosmos transaction failed: '' @ rawLog result)))
          else
            ([], Inr \<lparr>hash = transactionHash result, chainId_tx = ''cosmoshub-4'',
                      blockNumber = height result,
                      gasUsed = numToString js (Fin (of_int (gasUsed_b result))),
                      status_tx = ''confirmed''\<rparr>)))))"

definition lockSourceEscrow ::
  "chain_env \<Rightarrow> js_builtins \<Rightarrow> int \<Rightarrow> CrossChainOrder \<Rightarrow> TransactionResult action" where
  "lockSourceEscrow env js now order =
     (if isStringChain (srcChainId order) then lockCosmosEscrow env js order Source
      else lockEvmEscrow env js now order Source)"

definition lockDestinationEscrow ::
  "chain_env \<Rightarrow> js_builtins \<Rightarrow> int \<Rightarrow> CrossChainOrder \<Rightarrow> TransactionResult action" where
  "lockDestinationEscrow env js now order =
     (if isStringChain (dstChainId order) then lockCosmosEscrow env js order Destination
      else lockEvmEscrow env js now order Destination)"

definition claimFromEvmEscrow ::
  "chain_env \<Rightarrow> js_builtins \<Rightarrow> CrossChainOrder \<Rightarrow> string \<Rightarrow> side \<Rightarrow> unit action" where
  "claimFromEvmEscrow env js order secret type =
     andThen ([], getEscrowAddress env js (sideChainId order type))
       (\<lambda>escrowAddress.
     andThen ([ClaimFunds type escrowAddress], claimFunds env escrowAddress secret)
       (\<lambda>txh. ([], Inr ())))"

definition claimFromCosmosEscrow ::
  "CrossChainOrder \<Rightarrow> string \<Rightarrow> side \<Rightarrow> unit action" where
  "claimFromCosmosEscrow order secret type = ([CosmosClaimSimulated type], Inr ())"

definition claimFromEscrow ::
  "chain_env \<Rightarrow> js_builtins \<Rightarrow> CrossChainOrder \<Rightarrow> string \<Rightarrow> side \<Rightarrow> unit action" where
  "claimFromEscrow env js order secret type =
     (if isStringChain (sideChainId order type) then claimFromCosmosEscrow order secret type
      else claimFromEvmEscrow env js order secret type)"

definition revealSecretAndClaim ::
  "chain_env \<Rightarrow> js_builtins \<Rightarrow> CrossChainOrder \<Rightarrow> unit action" where
  "revealSecretAndClaim env js order =
     (let secret = randomBytes32 env in
      case claimFromEscrow env js order secret Source of
        (tr, Inr u) \<Rightarrow> (tr @ [Logged SecretRevealed], Inr ())
      | (tr, Inl e) \<Rightarrow> (tr @ [Logged FailedToRevealSecret], Inl e))"

text \<open>
  \<open>isTransactionConfirmed\<close> never throws: its \<open>catch\<close> block answers \<open>false\<close>.
\<close>

definition isTransactionConfirmed ::
  "chain_env \<Rightarrow> int \<Rightarrow> string \<Rightarrow> side \<Rightarrow> event list \<times> bool" where
  "isTransactionConfirmed env now txHash chain =
     (if chain = Source \<and> take 2 txHash = ''0x'' then
        ([GetTransactionReceipt txHash],
         (case getTransactionReceipt env now txHash of
            Inl e \<Rightarrow> False
          | Inr None \<Rightarrow> False
          | Inr (Some st) \<Rightarrow> st = 1))
      else ([], True))"

text \<open>
  \<open>cancelEvmEscrow\<close>: looking the escrow address up is outside the \<open>try\<close> block and may
  throw; a failing refund is caught and logged.
\<close>

definition cancelEvmEscrow ::
  "chain_env \<Rightarrow> js_builtins \<Rightarrow> CrossChainOrder \<Rightarrow> side \<Rightarrow> unit action" where
  "cancelEvmEscrow env js order type =
     andThen ([], getEscrowAddress env js (sideChainId order type))
       (\<lambda>escrowAddress.
          case refund env escrowAddress (secretHash order) of
            Inr txh \<Rightarrow> ([Refund type escrowAddress], Inr ())
          | Inl e \<Rightarrow> ([Refund type escrowAddress, Logged (CouldNotCancelEscrow type)], Inr ()))"

text \<open>\<open>cancelEscrows\<close> never throws: its \<open>catch\<close> block only logs.\<close>

definition cancelEscrows :: "chain_env \<Rightarrow> js_builtins \<Rightarrow> CrossChainOrder \<Rightarrow> event list" where
  "cancelEscrows env js order =
     (case andThen (if \<not> isStringChain (srcChainId order)
                      then cancelEvmEscrow env js order Source else ([], Inr ()))
             (\<lambda>u. if \<not> isStringChain (dstChainId order)
                     then cancelEvmEscrow env js order Destination else ([], Inr ())) of
        (tr, Inr u) \<Rightarrow> tr @ [Logged EscrowsCancelled]
      | (tr, Inl e) \<Rightarrow> tr @ [Logged FailedToCancelEscrows])"

section \<open>CrossChainResolver\<close>

text \<open>
  \<open>processedOrders\<close> is a \<open>Set\<close> of order hashes. \<open>activeOrders\<close> is a \<open>Map\<close> from order
  hash to order, kept as an association list in insertion order: \<open>AList.update\<close> is
  \<open>Map.set\<close> (an existing key keeps its place, a new one goes last) and \<open>AList.delete\<close> is
  \<open>Map.delete\<close>.
\<close>

record resolver_state =
  processedOrders :: "string set"
  activeOrders :: "(string \<times> CrossChainOrder) list"
  analyzerState :: analyzer_state

text \<open>
  \<open>waitForEscrowConfirmations\<close>: the loop runs while less than five minutes have passed
  since \<open>startTime\<close>; each round checks both transactions and sleeps five seconds.
\<close>

function waitForEscrowConfirmations ::
  "chain_env \<Rightarrow> int \<Rightarrow> int \<Rightarrow> string \<Rightarrow> string \<Rightarrow> unit action" where
  "waitForEscrowConfirmations env startTime now sourceTxHash destTxHash =
     (if now - startTime < 300000 then
        (case isTransactionConfirmed env now sourceTxHash Source of
           (tr1, sourceConfirmed) \<Rightarrow>
        (case isTransactionConfirmed env now destTxHash Destination of
           (tr2, destConfirmed) \<Rightarrow>
             if sourceConfirmed \<and> destConfirmed then
               (tr1 @ tr2 @ [Logged BothEscrowsConfirmed], Inr ())
             else
               (case waitForEscrowConfirmations env startTime
                       (now + 5000 + int (pollDelay env now)) sourceTxHash destTxHash of
                  (tr, r) \<Rightarrow> (tr1 @ tr2 @ tr, r))))
      else ([], Inl (Error ''Escrow confirmations timed out'')))"
  by pat_completeness auto
termination
  by (relation "measure (\<lambda>(env, startTime, now, s, d). nat (300000 - (now - startTime)))") auto

text \<open>The \<open>try\<close> block of \<open>executeAtomicSwap\<close>, up to the log line that reports completion.\<close>

definition executeAtomicSwap_try ::
  "chain_env \<Rightarrow> js_builtins \<Rightarrow> int \<Rightarrow> CrossChainOrder \<Rightarrow> unit action" where
  "executeAtomicSwap_try env js now order =
     andThen (lockSourceEscrow env js now order)
       (\<lambda>sourceEscrowTx.
     andThen (lockDestinationEscrow env js now order)
       (\<lambda>destEscrowTx.
     andThen (waitForEscrowConfirmations env now now (hash sourceEscrowTx) (hash destEscrowTx))
       (\<lambda>u.
     andThen (revealSecretAndClaim env js order)
       (\<lambda>u. ([Logged SwapCompletedSuccessfully], Inr ())))))"

definition handleFailedSwap :: "chain_env \<Rightarrow> js_builtins \<Rightarrow> CrossChainOrder \<Rightarrow> event list" where
  "handleFailedSwap env js order = cancelEscrows env js order @ [Logged SwapFailureLogged]"

definition executeAtomicSwap ::
  "chain_env \<Rightarrow> js_builtins \<Rightarrow> int \<Rightarrow> CrossChainOrder \<Rightarrow> resolver_state
     \<Rightarrow> event list \<times> resolver_state" where
  "executeAtomicSwap env js now order st =
     (case executeAtomicSwap_try env js now order of
        (tr, Inr u) \<Rightarrow>
          (tr, st\<lparr>activeOrders := AList.delete (orderHash order) (activeOrders st)\<rparr>)
      | (tr, Inl e) \<Rightarrow>
          (tr @ [Logged AtomicSwapFailed] @ handleFailedSwap env js order,
           st\<lparr>activeOrders := AList.delete (orderHash order) (activeOrders st)\<rparr>))"

definition analyzeAndExecuteOrder ::
  "chain_env \<Rightarrow> js_builtins \<Rightarrow> coingecko \<Rightarrow> int \<Rightarrow> CrossChainOrder \<Rightarrow> resolver_state
     \<Rightarrow> event list \<times> resolver_state" where
  "analyzeAndExecuteOrder env js http now order st =
     (case analyzeOrder js http now now (analyzerState st) order of
        Inl e \<Rightarrow> ([Logged FailedToProcessOrder], st)
      | Inr (decision, as') \<Rightarrow>
          if \<not> shouldFill decision then
            ([Logged OrderNotProfitable], st\<lparr>analyzerState := as'\<rparr>)
          else
            executeAtomicSwap env js now order
              (st\<lparr>analyzerState := as',
                  activeOrders := AList.update (orderHash order) order (activeOrders st)\<rparr>))"

text \<open>
  \<open>processNewOrders\<close>, given the orders that \<open>fetchPendingOrders\<close> returned.
\<close>

fun processNewOrders ::
  "chain_env \<Rightarrow> js_builtins \<Rightarrow> coingecko \<Rightarrow> int \<Rightarrow> CrossChainOrder list \<Rightarrow> resolver_state
     \<Rightarrow> event list \<times> resolver_state" where
  "processNewOrders env js http now [] st = ([], st)"
| "processNewOrders env js http now (order # orders) st =
     (if orderHash order \<in> processedOrders st then processNewOrders env js http now orders st
      else
        (case analyzeAndExecuteOrder env js http now order st of
           (tr, st1) \<Rightarrow>
        (case processNewOrders env js http now orders
                (st1\<lparr>processedOrders := insert (orderHash order) (processedOrders st1)\<rparr>) of
           (tr', st2) \<Rightarrow>
             (Logged (NewOrderDetected (take 10 (orderHash order))) # tr @ tr', st2))))"

section \<open>Resolver: tracked swaps and the timeout check\<close>

record Immutables =
  orderHash_im :: string
  hashlock :: string
  maker_im :: string
  taker :: string
  token :: string
  amount :: string
  safetyDeposit :: string
  timelocks :: TimeLocks

text \<open>
  The interface \<open>Swap\<close>. Its \<open>status\<close> is one of the two strings \<open>'active'\<close> and
  \<open>'completed'\<close>; \<open>updateAt\<close> is optional.
\<close>

datatype swap_status = Active | Completed

record Swap =
  immutables :: Immutables
  srcEscrow :: string
  dstEscrow :: string
  chainId_swap :: chain_id
  status_swap :: swap_status
  createdAt_swap :: int
  updateAt :: "int option"

text \<open>
  What a run of the resolver leaves behind: a \<open>cancel\<close> transaction sent to the resolver
  contract, and the log lines of \<open>addSwapOrder\<close>, \<open>removeSwapFromTracking\<close> and
  \<open>checkAndHandleTimeout\<close>.
\<close>

datatype resolver_event =
    ContractCancel string
  | AddedSwapToTracking string
  | RemovedSwapFromTracking string
  | CancelledSourceChainSwap string
  | CancelledDestinationChainSwap string

fun isContractCall :: "resolver_event \<Rightarrow> bool" where
  "isContractCall (ContractCancel escrow) = True"
| "isContractCall _ = False"

text \<open>\<open>activeSwaps\<close> is a \<open>Map\<close> from hashlock to swap, in insertion order.\<close>

type_synonym activeSwaps = "(string \<times> Swap) list"

definition addSwapOrder :: "Swap \<Rightarrow> activeSwaps \<Rightarrow> resolver_event list \<times> activeSwaps" where
  "addSwapOrder swap m =
     ([AddedSwapToTracking (hashlock (immutables swap))],
      AList.update (hashlock (immutables swap)) swap m)"

definition removeSwapFromTracking ::
  "string \<Rightarrow> activeSwaps \<Rightarrow> resolver_event list \<times> activeSwaps" where
  "removeSwapFromTracking h m = ([RemovedSwapFromTracking h], AList.delete h m)"

text \<open>
  \<open>cancel\<close> sends the \<open>cancel\<close> transaction of the resolver contract for an escrow and waits
  for its receipt; \<open>sendCancel\<close> is the outcome of the two. No method of the class calls it.
\<close>

definition cancel ::
  "(string \<Rightarrow> Immutables \<Rightarrow> exn + unit) \<Rightarrow> string \<Rightarrow> Immutables
     \<Rightarrow> resolver_event list \<times> (exn + unit)" where
  "cancel sendCancel escrowAddress imm =
     ([ContractCancel escrowAddress], sendCancel escrowAddress imm)"

text \<open>
  \<open>cancelSwapOnSource\<close> and \<open>cancelSwapOnDestination\<close> are \<open>async\<close> methods with an empty
  body: a call does nothing and returns a promise, so it cannot throw.
\<close>

definition cancelSwapOnSource :: "resolver_event list" where
  "cancelSwapOnSource = []"

definition cancelSwapOnDestination :: "resolver_event list" where
  "cancelSwapOnDestination = []"

text \<open>
  The body of the loop of \<open>checkAndHandleTimeout\<close> for one entry. Nothing in either \<open>try\<close>
  block throws, so neither \<open>catch\<close> block runs.
\<close>

definition timeoutStep ::
  "int \<Rightarrow> string \<times> Swap \<Rightarrow> activeSwaps \<Rightarrow> resolver_event list \<times> activeSwaps" where
  "timeoutStep now entry m =
     (case entry of (h, swap) \<Rightarrow>
        (case (if jlt (srcCancellation (timelocks (immutables swap))) (Fin (of_int now)) then
                 (case removeSwapFromTracking h m of
                    (tr, m') \<Rightarrow>
                      (cancelSwapOnSource @ tr @ [CancelledSourceChainSwap h], m'))
               else ([], m)) of
           (tr1, m1) \<Rightarrow>
             (if jlt (dstCancellation (timelocks (immutables swap))) (Fin (of_int now)) then
                (case removeSwapFromTracking h m1 of
                   (tr, m') \<Rightarrow>
                     (tr1 @ cancelSwapOnDestination @ tr @ [CancelledDestinationChainSwap h],
                      m'))
              else (tr1, m1))))"

text \<open>
  The loop visits the entries that are in the map when it starts; an entry is deleted only
  while it is the current one, so the iteration runs over that list.
\<close>

fun timeoutLoop ::
  "int \<Rightarrow> (string \<times> Swap) list \<Rightarrow> activeSwaps \<Rightarrow> resolver_event list \<times> activeSwaps" where
  "timeoutLoop now [] m = ([], m)"
| "timeoutLoop now (entry # entries) m =
     (case timeoutStep now entry m of
        (tr, m1) \<Rightarrow> (case timeoutLoop now entries m1 of (tr', m2) \<Rightarrow> (tr @ tr', m2)))"

text \<open>
  \<open>checkAndHandleTimeout\<close>, with the clock reading \<open>Date.now()\<close> in milliseconds; the times
  it compares are whole seconds, \<open>Math.floor(Date.now() / 1000)\<close>.
\<close>

definition checkAndHandleTimeout ::
  "int \<Rightarrow> activeSwaps \<Rightarrow> resolver_event list \<times> activeSwaps" where
  "checkAndHandleTimeout nowMs m = timeoutLoop (nowMs div 1000) m m"

text \<open>Which events submit a lock, and which a claim, on a given leg.\<close>

fun isLockEvent :: "side \<Rightarrow> event \<Rightarrow> bool" where
  "isLockEvent s (LockFunds s' a) = (s' = s)"
| "isLockEvent s (SignAndBroadcast s') = (s' = s)"
| "isLockEvent s _ = False"

fun isClaimEvent :: "side \<Rightarrow> event \<Rightarrow> bool" where
  "isClaimEvent s (ClaimFunds s' a) = (s' = s)"
| "isClaimEvent s (CosmosClaimSimulated s') = (s' = s)"
| "isClaimEvent s _ = False"


text \<open>
  The events each phase of a swap can produce: locking one leg, waiting for the
  confirmations, and cancelling.
\<close>

fun lockPhaseEvent :: "side \<Rightarrow> event \<Rightarrow> bool" where
  "lockPhaseEvent s (AllowanceQuery t a) = True"
| "lockPhaseEvent s (Approve t a n) = True"
| "lockPhaseEvent s (LockFunds s' a) = (s' = s)"
| "lockPhaseEvent s (SignAndBroadcast s') = (s' = s)"
| "lockPhaseEvent s _ = False"

fun waitPhaseEvent :: "event \<Rightarrow> bool" where
  "waitPhaseEvent (GetTransactionReceipt h) = True"
| "waitPhaseEvent (Logged BothEscrowsConfirmed) = True"
| "waitPhaseEvent _ = False"

fun cancelPhaseEvent :: "event \<Rightarrow> bool" where
  "cancelPhaseEvent (Refund s a) = True"
| "cancelPhaseEvent (Logged (CouldNotCancelEscrow s)) = True"
| "cancelPhaseEvent (Logged EscrowsCancelled) = True"
| "cancelPhaseEvent (Logged FailedToCancelEscrows) = True"
| "cancelPhaseEvent (Logged SwapFailureLogged) = True"
| "cancelPhaseEvent _ = False"

section \<open>Example inputs\<close>

text \<open>
  The order of the README and of the scenario: 1.0 WETH on chain 1 for 25.5 ATOM on
  \<open>cosmoshub-4\<close>, with prices under which both legs are worth $2500.
\<close>

definition scenario_js :: js_builtins where
  "scenario_js =
     \<lparr>parseFloat = (\<lambda>s. if s = ''1.0'' then Fin 1
                         else if s = ''25.5'' then Fin (51 / 2) else NaN),
      toFixed2 = (\<lambda>n. if n = Fin (- (7 / 2)) then ''-3.50'' else ''?''),
      numToString = (\<lambda>n. if n = Fin 1 then ''1''
                          else if n = Fin 150000 then ''150000'' else ''?'')\<rparr>"

definition scenario_http :: coingecko where
  "scenario_http coinId =
     (if coinId = ''ethereum'' then Inr (Some (Fin 2500))
      else if coinId = ''cosmos'' then Inr (Some (Fin (5000 / 51)))
      else Inl (Error ''Network Error''))"


text \<open>Prices under which the destination leg is worth $2400.\<close>

definition favourable_http :: coingecko where
  "favourable_http coinId =
     (if coinId = ''ethereum'' then Inr (Some (Fin 2500))
      else if coinId = ''cosmos'' then Inr (Some (Fin (4800 / 51)))
      else Inl (Error ''Network Error''))"

definition scenario_order :: "int \<Rightarrow> CrossChainOrder" where
  "scenario_order now =
     \<lparr>orderHash = ''0x123'', maker = ''0xabc'',
      srcChainId = ChainNum (Fin 1), dstChainId = ChainStr ''cosmoshub-4'',
      srcToken = ''0xC02aaA39b223FE8D0A0e5C4F27eAD9083C756Cc2'', dstToken = ''uatom'',
      srcAmount = ''1.0'', dstAmount = ''25.5'',
      deadline = Fin (of_int (now + 3600000)),
      secretHash = ''0xdef'', signature = ''0x456'',
      escrowFactory = None, timeLocks = None, createdAt = None, nonce = None,
      status = ''pending'', estimatedGasCost = ''0'', profitability = None\<rparr>"

definition empty_caches :: analyzer_state where
  "empty_caches = \<lparr>priceCache = Map.empty, gasCache = Map.empty\<rparr>"

text \<open>The same order as it is submitted, every required field present.\<close>

definition valid_submission :: "int \<Rightarrow> SubmittedOrder" where
  "valid_submission now =
     \<lparr>orderHash = Some ''0x123'', maker = Some ''0xabc'',
      srcChainId = Some (ChainNum (Fin 1)), dstChainId = Some (ChainStr ''cosmoshub-4''),
      srcToken = Some ''0xC02aaA39b223FE8D0A0e5C4F27eAD9083C756Cc2'', dstToken = Some ''uatom'',
      srcAmount = Some ''1.0'', dstAmount = Some ''25.5'',
      deadline = Some (Fin (of_int (now + 3600000))),
      secretHash = Some ''0xdef'', signature = Some ''0x456'',
      escrowFactory = None, timeLocks = None, createdAt = None, nonce = None,
      status = ''pending'', estimatedGasCost = ''0'', profitability = None\<rparr>"

text \<open>Timelocks with the cancellation times given from a base time \<open>T\<close> (in seconds).\<close>

definition timelocks_with :: "int \<Rightarrow> int \<Rightarrow> TimeLocks" where
  "timelocks_with srcCancel dstCancel =
     \<lparr>srcWithdrawal = Fin 0, srcPublicWithdrawal = Fin 0,
      srcCancellation = Fin (of_int srcCancel), srcPublicCancellation = Fin (of_int srcCancel),
      dstWithdrawal = Fin 0, dstPublicWithdrawal = Fin 0,
      dstCancellation = Fin (of_int dstCancel)\<rparr>"

text \<open>A tracked swap with the given timelocks, created at the given time.\<close>

definition example_swap :: "TimeLocks \<Rightarrow> int \<Rightarrow> Swap" where
  "example_swap locks created =
     \<lparr>immutables = \<lparr>orderHash_im = ''0x123'', hashlock = ''0xdef'', maker_im = ''0xabc'',
         taker = ''0xres'', token = ''0xA'', amount = ''100'', safetyDeposit = ''1'',
         timelocks = locks\<rparr>,
      srcEscrow = [], dstEscrow = [],
      chainId_swap = ChainNum (Fin 11155111), status_swap = Active,
      createdAt_swap = created, updateAt = None\<rparr>"

text \<open>
  Chain clients whose every call succeeds: the needed allowance is missing, transactions
  are accepted, and a receipt with status 1 is there at once.
\<close>

definition example_env :: chain_env where
  "example_env =
     \<lparr>escrowContracts_ethereum = ''0xEscrowEth'',
      escrowContracts_sepolia = ''0x718B8f5c8C1A9bd20b8f3cB347b7CD661A7694B1'',
      escrowContracts_bsc = [],
      signerAddress = ''0xResolver'',
      parseUnits = (\<lambda>a d. Inr 1),
      allowance = (\<lambda>t ow sp. Inr 0),
      approve = (\<lambda>t sp n. Inr ''0xapprove''),
      lockFunds = (\<lambda>esc sh t n tl rc v. Inr ''0xlock''),
      claimFunds = (\<lambda>esc sec. Inr ''0xclaim''),
      refund = (\<lambda>esc sh. Inr ''0xrefund''),
      getTransactionReceipt = (\<lambda>t h. Inr (Some 1)),
      cosmosAccount = Inr ''cosmos1resolver'',
      signAndBroadcast = (\<lambda>s a d n memo.
        Inr \<lparr>code = 0, rawLog = [], transactionHash = ''ABCDEF'', height = 100,
             gasUsed_b = 150000\<rparr>),
      randomBytes32 = ''0x5ec'',
      pollDelay = (\<lambda>t. 0)\<rparr>"



text \<open>The same clients, but no receipt is ever found.\<close>

definition no_receipt_env :: chain_env where
  "no_receipt_env = example_env\<lparr>getTransactionReceipt := (\<lambda>t h. Inr None)\<rparr>"


definition initial_state :: resolver_state where
  "initial_state = \<lparr>processedOrders = {}, activeOrders = [], analyzerState = empty_caches\<rparr>"

text \<open>
  The resolver while the first admission of the scenario order, analysed at time 1000
  under the favourable prices, is still inside \<open>executeAtomicSwap\<close>: the order is in
  \<open>activeOrders\<close> and not yet in \<open>processedOrders\<close>, and the caches are as that analysis
  left them.
\<close>

definition swap_in_progress :: resolver_state where
  "swap_in_progress =
     (case analyzeOrder scenario_js favourable_http 1000 1000 empty_caches (scenario_order 1000) of
        Inr (d, as') \<Rightarrow>
          \<lparr>processedOrders = {}, activeOrders = [(''0x123'', scenario_order 1000)],
            analyzerState = as'\<rparr>
      | Inl e \<Rightarrow> initial_state)"


declare waitForEscrowConfirmations.simps [simp del]

section \<open>Properties of the profitability analysis\<close>

lemmas analyzer_defs = analyzeOrder_def analyzeOrder_try_def getTokenPrice_def
  priceCacheKey_def fetchTokenPrice_def fetchCosmosTokenPrice_def cosmosTokens_def
  coinGeckoIds_def estimateGasCosts_def estimateGasCosts_try_def estimateChainGasCost_def
  gasCacheKey_def jsub_def Let_def split_def

lemmas scenario_defs = scenario_order_def scenario_http_def scenario_js_def empty_caches_def

text \<open>
  C1. The claim: the expected net profit is the source value minus the destination value
  minus the fees of all three operations (source lock, destination lock, claim); for the
  scenario with both legs worth $2500 and a total fee estimate of $5.50 the net profit is
  -$5.50 and the order is rejected for insufficient profit.

  What \<open>analyzeOrder\<close> computes on the scenario: both legs are worth $2500, the gas
  estimate has \<open>totalGasUsd\<close> = 5.5 (3 + 0.5 + 2), but the cost it subtracts is
  \<open>sourceGasUsd + destinationGasUsd\<close> = 3.5: the claim fee is left out, and the net profit is
  -3.5, not -5.5. The order is rejected, with the insufficient-profit reason.
\<close>

theorem analyzeOrder_scenario_omits_claim_fee:
  "\<exists>d st'. analyzeOrder scenario_js scenario_http startTime now empty_caches (scenario_order now)
       = Inr (d, st')
     \<and> jmul (parseFloat scenario_js (srcAmount (scenario_order now))) (Fin 2500) = Fin 2500
     \<and> jmul (parseFloat scenario_js (dstAmount (scenario_order now))) (Fin (5000 / 51)) = Fin 2500
     \<and> srcTokenPrice d = Some \<lparr>priceUsd = Fin 2500, source = ''api''\<rparr>
     \<and> dstTokenPrice d = Some \<lparr>priceUsd = Fin (5000 / 51), source = ''api''\<rparr>
     \<and> totalGasUsd (fst (estimateGasCosts scenario_js now (gasCache empty_caches)
           (scenario_order now))) = Fin (11 / 2)
     \<and> estimatedGasCost_d d = Fin (7 / 2)
     \<and> expectedProfitUsd d = Fin (- (7 / 2))
     \<and> shouldFill d = False
     \<and> reason d = ''Insufficient profit: $-3.50 < $5''"
  by (simp add: analyzer_defs scenario_defs shouldFillOrder_def getRejectReason_def
        MIN_PROFIT_USD_def checkLiquidityAvailability_def)

theorem analyzeOrder_scenario_omits_claim_fee_witness:
  "\<exists>d st'. analyzeOrder scenario_js scenario_http 1000 1005 empty_caches (scenario_order 1005)
       = Inr (d, st')
     \<and> expectedProfitUsd d = Fin (- (7 / 2))
     \<and> expectedProfitUsd d \<noteq> Fin (- (11 / 2))
     \<and> shouldFill d = False"
  using analyzeOrder_scenario_omits_claim_fee [of 1000 1005] by auto

text \<open>
  The two threshold tests of \<open>shouldFillOrder\<close> are \<open><\<close> comparisons, which are false on
  NaN: an order whose source amount does not parse has NaN as net profit and as margin,
  and is filled.
\<close>

lemma analyzeOrder_fills_unparsed_amount:
  "\<exists>d st'. analyzeOrder scenario_js scenario_http 1000 1000 empty_caches
        ((scenario_order 1000)\<lparr>srcAmount := ''abc''\<rparr>) = Inr (d, st')
     \<and> expectedProfitUsd d = NaN \<and> profitMarginPercent d = NaN
     \<and> shouldFill d = True \<and> reason d = ''Profitable order''"
  by (simp add: analyzer_defs scenario_defs shouldFillOrder_def MIN_PROFIT_USD_def
        MIN_PROFIT_MARGIN_def checkLiquidityAvailability_def)

text \<open>
  C8. \<open>checkLiquidityAvailability\<close> returns the same status for every order (both
  liquidity flags true, ratio 1.2, slippage 0.1), so the liquidity test of
  \<open>shouldFillOrder\<close> never rejects: the decision of \<open>analyzeOrder\<close> is to fill exactly when
  neither profit threshold is missed, and the reject reason is never the liquidity one.
\<close>

theorem liquidity_never_rejects:
  "checkLiquidityAvailability order =
     \<lparr>hasSourceLiquidity = True, hasDestinationLiquidity = True,
      liquidityRatio = Fin (6 / 5), estimatedSlippage = Fin (1 / 10)\<rparr>
   \<and> shouldFillOrder net margin (checkLiquidityAvailability order) =
       (\<not> jlt net MIN_PROFIT_USD \<and> \<not> jlt margin MIN_PROFIT_MARGIN)
   \<and> getRejectReason js net margin (checkLiquidityAvailability order)
       \<noteq> ''Insufficient destination liquidity''
   \<and> (\<exists>d st'. analyzeOrder js http startTime now st order = Inr (d, st')
        \<and> liquidityStatus d = Some (checkLiquidityAvailability order)
        \<and> shouldFill d =
            (\<not> jlt (expectedProfitUsd d) MIN_PROFIT_USD
             \<and> \<not> jlt (profitMarginPercent d) MIN_PROFIT_MARGIN))"
  by (simp add: analyzeOrder_def analyzeOrder_try_def shouldFillOrder_def getRejectReason_def
        checkLiquidityAvailability_def Let_def split_def)

theorem liquidity_never_rejects_witness:
  "shouldFillOrder (Fin 6) (Fin 1) (checkLiquidityAvailability (scenario_order 1000)) = True
   \<and> shouldFillOrder (Fin 4) (Fin 1) (checkLiquidityAvailability (scenario_order 1000)) = False
   \<and> (\<exists>d st'. analyzeOrder scenario_js scenario_http 1000 1000 empty_caches
                 (scenario_order 1000) = Inr (d, st')
        \<and> shouldFill d = False \<and> jlt (expectedProfitUsd d) MIN_PROFIT_USD)"
proof -
  have "shouldFillOrder (Fin 6) (Fin 1) (checkLiquidityAvailability (scenario_order 1000)) =
          (\<not> jlt (Fin 6) MIN_PROFIT_USD \<and> \<not> jlt (Fin 1) MIN_PROFIT_MARGIN)"
    using liquidity_never_rejects
      [of "scenario_order 1000" "Fin 6" "Fin 1" scenario_js scenario_http 1000 1000 empty_caches]
    by blast
  then have a: "shouldFillOrder (Fin 6) (Fin 1) (checkLiquidityAvailability (scenario_order 1000))"
    by (simp add: MIN_PROFIT_USD_def MIN_PROFIT_MARGIN_def)
  have b: "\<not> shouldFillOrder (Fin 4) (Fin 1) (checkLiquidityAvailability (scenario_order 1000))"
    by (simp add: shouldFillOrder_def MIN_PROFIT_USD_def)
  have c: "\<exists>d st'. analyzeOrder scenario_js scenario_http 1000 1000 empty_caches
                 (scenario_order 1000) = Inr (d, st')
        \<and> shouldFill d = False \<and> jlt (expectedProfitUsd d) MIN_PROFIT_USD"
    by (simp add: analyzer_defs scenario_defs shouldFillOrder_def getRejectReason_def
        MIN_PROFIT_USD_def checkLiquidityAvailability_def)
  from a b c show ?thesis by simp
qed








section \<open>Properties of order validation\<close>

lemma find_required_None:
  "(find (\<lambda>field. \<not> fieldTruthy order field) required = None) =
   (truthyStr (orderHash order) \<and> truthyStr (maker order) \<and> truthyChain (srcChainId order)
    \<and> truthyChain (dstChainId order) \<and> truthyStr (srcToken order) \<and> truthyStr (dstToken order)
    \<and> truthyStr (srcAmount order) \<and> truthyStr (dstAmount order) \<and> truthyNumber (deadline order)
    \<and> truthyStr (secretHash order) \<and> truthyStr (signature order))"
  by (simp add: required_def fieldTruthy_def)

lemma validateOrder_accepts:
  "(validateOrder js now order = Inr ()) =
     (find (\<lambda>field. \<not> fieldTruthy order field) required = None
      \<and> \<not> deadlinePassed (deadline order) now
      \<and> \<not> amountNotPositive js (srcAmount order) \<and> \<not> amountNotPositive js (dstAmount order)
      \<and> chainSupported (srcChainId order) \<and> chainSupported (dstChainId order))"
  by (cases "find (\<lambda>field. \<not> fieldTruthy order field) required")
     (auto simp: validateOrder_def)

lemma submitOrder_success:
  "success (submitOrder js now order) = (validateOrder js now order = Inr ())"
proof (cases "validateOrder js now order")
  case (Inl e)
  then show ?thesis by (simp add: submitOrder_def)
next
  case (Inr u)
  then have "validateOrder js now order = Inr ()" by simp
  then have "truthyStr (orderHash order)"
    by (simp add: validateOrder_accepts find_required_None)
  then obtain h where "orderHash order = Some h" by (cases "orderHash order") auto
  with Inr show ?thesis by (simp add: submitOrder_def)
qed

text \<open>
  C10, as amended. \<open>validateOrder\<close> rejects an order exactly when one of the required
  fields is missing or holds a falsy value (the empty string, the number 0 or NaN), or the
  deadline is not strictly after the current time, or either amount parses to a value not
  above 0, or either chain id is outside the supported list; otherwise it accepts, and
  \<open>submitOrder\<close> reports success exactly when \<open>validateOrder\<close> accepts. Neither function
  calls a chain client.
\<close>

theorem validateOrder_rejects_iff_falsy:
  "((\<exists>e. validateOrder js now order = Inl e) =
     (\<not> truthyStr (orderHash order) \<or> \<not> truthyStr (maker order)
      \<or> \<not> truthyChain (srcChainId order) \<or> \<not> truthyChain (dstChainId order)
      \<or> \<not> truthyStr (srcToken order) \<or> \<not> truthyStr (dstToken order)
      \<or> \<not> truthyStr (srcAmount order) \<or> \<not> truthyStr (dstAmount order)
      \<or> \<not> truthyNumber (deadline order)
      \<or> \<not> truthyStr (secretHash order) \<or> \<not> truthyStr (signature order)
      \<or> deadlinePassed (deadline order) now
      \<or> amountNotPositive js (srcAmount order) \<or> amountNotPositive js (dstAmount order)
      \<or> \<not> chainSupported (srcChainId order) \<or> \<not> chainSupported (dstChainId order)))
   \<and> success (submitOrder js now order) = (validateOrder js now order = Inr ())"
proof -
  have "(\<exists>e. validateOrder js now order = Inl e) = (validateOrder js now order \<noteq> Inr ())"
    by (cases "validateOrder js now order") auto
  then show ?thesis
    unfolding submitOrder_success validateOrder_accepts find_required_None by blast
qed

theorem validateOrder_rejects_iff_falsy_witness:
  "validateOrder scenario_js 1000 (valid_submission 1000) = Inr ()
   \<and> success (submitOrder scenario_js 1000 (valid_submission 1000))
   \<and> validateOrder scenario_js 1000 ((valid_submission 1000)\<lparr>deadline := Some (Fin 1000)\<rparr>)
       = Inl (Error ''Order deadline has already passed'')"
proof -
  have a: "validateOrder scenario_js 1000 (valid_submission 1000) = Inr ()"
    by (simp add: validateOrder_accepts find_required_None valid_submission_def scenario_js_def
          supportedChains_def)
  have b: "success (submitOrder scenario_js 1000 (valid_submission 1000))"
    using validateOrder_rejects_iff_falsy [of scenario_js 1000 "valid_submission 1000"] a
    by simp
  have c: "validateOrder scenario_js 1000 ((valid_submission 1000)\<lparr>deadline := Some (Fin 1000)\<rparr>)
       = Inl (Error ''Order deadline has already passed'')"
    by (simp add: validateOrder_def required_def fieldTruthy_def valid_submission_def)
  from a b c show ?thesis by simp
qed

text \<open>
  The claim as stated fails on an order whose fields are all present: with the signature
  present but empty, no required field is missing, the deadline is in the future, both
  amounts are positive and both chains are supported, yet the order is rejected.
\<close>

theorem empty_signature_is_rejected:
  "validateOrder scenario_js 1000 ((valid_submission 1000)\<lparr>signature := Some []\<rparr>)
     = Inl (Error ''Missing required field: signature'')
   \<and> success (submitOrder scenario_js 1000 ((valid_submission 1000)\<lparr>signature := Some []\<rparr>)) = False
   \<and> orderHash ((valid_submission 1000)\<lparr>signature := Some []\<rparr>) \<noteq> None
   \<and> maker ((valid_submission 1000)\<lparr>signature := Some []\<rparr>) \<noteq> None
   \<and> srcChainId ((valid_submission 1000)\<lparr>signature := Some []\<rparr>) \<noteq> None
   \<and> dstChainId ((valid_submission 1000)\<lparr>signature := Some []\<rparr>) \<noteq> None
   \<and> srcToken ((valid_submission 1000)\<lparr>signature := Some []\<rparr>) \<noteq> None
   \<and> dstToken ((valid_submission 1000)\<lparr>signature := Some []\<rparr>) \<noteq> None
   \<and> srcAmount ((valid_submission 1000)\<lparr>signature := Some []\<rparr>) \<noteq> None
   \<and> dstAmount ((valid_submission 1000)\<lparr>signature := Some []\<rparr>) \<noteq> None
   \<and> deadline ((valid_submission 1000)\<lparr>signature := Some []\<rparr>) \<noteq> None
   \<and> secretHash ((valid_submission 1000)\<lparr>signature := Some []\<rparr>) \<noteq> None
   \<and> signature ((valid_submission 1000)\<lparr>signature := Some []\<rparr>) \<noteq> None
   \<and> deadlinePassed (deadline ((valid_submission 1000)\<lparr>signature := Some []\<rparr>)) 1000 = False
   \<and> amountNotPositive scenario_js (srcAmount ((valid_submission 1000)\<lparr>signature := Some []\<rparr>)) = False
   \<and> amountNotPositive scenario_js (dstAmount ((valid_submission 1000)\<lparr>signature := Some []\<rparr>)) = False
   \<and> chainSupported (srcChainId ((valid_submission 1000)\<lparr>signature := Some []\<rparr>))
   \<and> chainSupported (dstChainId ((valid_submission 1000)\<lparr>signature := Some []\<rparr>))"
  by (simp add: validateOrder_def submitOrder_def required_def fieldTruthy_def valid_submission_def
        scenario_js_def supportedChains_def)

lemma fieldTruthy_timeLocks:
  "fieldTruthy (order\<lparr>timeLocks := locks\<rparr>) f = fieldTruthy order f"
  unfolding fieldTruthy_def by simp

lemma validateOrder_ignores_timeLocks:
  "validateOrder js now (order\<lparr>timeLocks := locks\<rparr>) = validateOrder js now order"
  unfolding validateOrder_def fieldTruthy_timeLocks by (simp cong: option.case_cong)

lemma submitOrder_ignores_timeLocks:
  "submitOrder js now (order\<lparr>timeLocks := locks\<rparr>) = submitOrder js now order"
  unfolding submitOrder_def validateOrder_ignores_timeLocks by (simp cong: sum.case_cong)

text \<open>
  C5, as amended. Timelocks are not validated when an order is submitted: the outcome of
  \<open>validateOrder\<close> and of \<open>submitOrder\<close> does not depend on the order's timelocks. So both
  examples pass when the rest of the order is valid.
\<close>

theorem timelocks_not_validated:
  "validateOrder js now (order\<lparr>timeLocks := locks\<rparr>) = validateOrder js now order
   \<and> submitOrder js now (order\<lparr>timeLocks := locks\<rparr>) = submitOrder js now order"
  by (simp add: validateOrder_ignores_timeLocks submitOrder_ignores_timeLocks)

theorem timelocks_not_validated_witness:
  "validateOrder scenario_js 1000
      ((valid_submission 1000)\<lparr>timeLocks := Some (timelocks_with (1 + 7200) (1 + 3600))\<rparr>) = Inr ()"
proof -
  have "validateOrder scenario_js 1000 (valid_submission 1000) = Inr ()"
    by (simp add: validateOrder_def required_def fieldTruthy_def valid_submission_def
        scenario_js_def supportedChains_def)
  then show ?thesis
    using timelocks_not_validated [where js = scenario_js and now = 1000
        and order = "valid_submission 1000"
        and locks = "Some (timelocks_with (1 + 7200) (1 + 3600))"]
    by simp
qed

text \<open>
  The claim as stated fails: an order whose timelocks have \<open>srcCancellation = T + 3600\<close> and
  \<open>dstCancellation = T + 7200\<close> (here \<open>T = 1\<close>) passes validation and is acknowledged by
  \<open>submitOrder\<close>.
\<close>

theorem inverted_timelocks_accepted:
  "validateOrder scenario_js 1000
      ((valid_submission 1000)\<lparr>timeLocks := Some (timelocks_with (1 + 3600) (1 + 7200))\<rparr>) = Inr ()
   \<and> success (submitOrder scenario_js 1000
      ((valid_submission 1000)\<lparr>timeLocks := Some (timelocks_with (1 + 3600) (1 + 7200))\<rparr>))
   \<and> jlt (srcCancellation (timelocks_with (1 + 3600) (1 + 7200)))
          (dstCancellation (timelocks_with (1 + 3600) (1 + 7200)))"
  by (simp add: validateOrder_def submitOrder_def required_def fieldTruthy_def valid_submission_def
        scenario_js_def supportedChains_def timelocks_with_def)

section \<open>Properties of the escrow executor and of the swap\<close>

lemmas executor_defs = executeAtomicSwap_def executeAtomicSwap_try_def andThen_def
  lockSourceEscrow_def lockDestinationEscrow_def lockEvmEscrow_def lockCosmosEscrow_def
  approveToken_def getEscrowAddress_def sideChainId_def sideAmount_def sideToken_def
  ZeroAddress_def isTransactionConfirmed_def revealSecretAndClaim_def claimFromEscrow_def
  claimFromEvmEscrow_def claimFromCosmosEscrow_def handleFailedSwap_def cancelEscrows_def
  cancelEvmEscrow_def Let_def

text \<open>
  C7. \<open>isTransactionConfirmed\<close> answers \<open>true\<close>, without asking any chain, for every call
  whose chain is not the source or whose hash does not start with \<open>0x\<close>; so every check
  for the destination leg is confirmed. \<open>lockCosmosEscrow\<close>, whenever it returns, returns a
  result with status \<open>confirmed\<close> after the broadcast alone, and it returns whenever the
  broadcast is accepted with code 0.
\<close>

theorem destination_confirmation_is_unconditional:
  "(chain \<noteq> Source \<or> take 2 txHash \<noteq> ''0x''
      \<longrightarrow> isTransactionConfirmed env now txHash chain = ([], True))
   \<and> isTransactionConfirmed env now txHash Destination = ([], True)
   \<and> (\<forall>tr tx. lockCosmosEscrow env js order type = (tr, Inr tx)
        \<longrightarrow> status_tx tx = ''confirmed'' \<and> tr = [SignAndBroadcast type])
   \<and> (\<forall>addr units res. cosmosAccount env = Inr addr \<and> parseUnits env (sideAmount order type) 6 = Inr units
        \<and> signAndBroadcast env type addr (sideToken order type) units
             (''Escrow lock for order '' @ take 10 (orderHash order)) = Inr res
        \<and> code res = 0
        \<longrightarrow> (\<exists>tx. lockCosmosEscrow env js order type = ([SignAndBroadcast type], Inr tx)
               \<and> status_tx tx = ''confirmed'' \<and> hash tx = transactionHash res))"
  by (auto simp: isTransactionConfirmed_def lockCosmosEscrow_def andThen_def Let_def
        split: sum.splits if_splits prod.splits)


theorem destination_confirmation_is_unconditional_witness:
  "isTransactionConfirmed no_receipt_env 1000 ''0xlock'' Destination = ([], True)
   \<and> isTransactionConfirmed no_receipt_env 1000 ''ABCDEF'' Source = ([], True)
   \<and> isTransactionConfirmed no_receipt_env 1000 ''0xlock'' Source
       = ([GetTransactionReceipt ''0xlock''], False)
   \<and> lockCosmosEscrow example_env scenario_js (scenario_order 1000) Destination
       = ([SignAndBroadcast Destination],
          Inr \<lparr>hash = ''ABCDEF'', chainId_tx = ''cosmoshub-4'', blockNumber = 100,
               gasUsed = ''150000'', status_tx = ''confirmed''\<rparr>)"
proof -
  have a: "isTransactionConfirmed no_receipt_env 1000 ''0xlock'' Destination = ([], True)"
    using destination_confirmation_is_unconditional
      [where env = no_receipt_env and now = 1000 and txHash = "''0xlock''"]
    by blast
  have b: "isTransactionConfirmed no_receipt_env 1000 ''ABCDEF'' Source = ([], True)"
    by (simp add: isTransactionConfirmed_def)
  have c: "isTransactionConfirmed no_receipt_env 1000 ''0xlock'' Source
       = ([GetTransactionReceipt ''0xlock''], False)"
    by (simp add: isTransactionConfirmed_def no_receipt_env_def example_env_def)
  have d: "lockCosmosEscrow example_env scenario_js (scenario_order 1000) Destination
       = ([SignAndBroadcast Destination],
          Inr \<lparr>hash = ''ABCDEF'', chainId_tx = ''cosmoshub-4'', blockNumber = 100,
               gasUsed = ''150000'', status_tx = ''confirmed''\<rparr>)"
    by (simp add: lockCosmosEscrow_def andThen_def sideAmount_def sideToken_def
          example_env_def scenario_js_def scenario_order_def)
  from a b c d show ?thesis by simp
qed

lemma approveToken_events:
  "approveToken env t sp a = (tr, r) \<Longrightarrow> \<forall>ev\<in>set tr. lockPhaseEvent s ev"
  by (auto simp: approveToken_def andThen_def split: sum.splits if_splits prod.splits)

lemma lockEvmEscrow_events:
  assumes "lockEvmEscrow env js now order s = (tr, r)"
  shows "\<forall>ev\<in>set tr. lockPhaseEvent s ev"
proof -
  obtain tra ra where a: "approveToken env (sideToken order s)
      (projr (getEscrowAddress env js (sideChainId order s))) (sideAmount order s) = (tra, ra)"
    by (cases "approveToken env (sideToken order s)
      (projr (getEscrowAddress env js (sideChainId order s))) (sideAmount order s)")
  from approveToken_events [OF a] have "\<forall>ev\<in>set tra. lockPhaseEvent s ev" .
  with assms a show ?thesis
    by (auto simp: lockEvmEscrow_def andThen_def Let_def split: sum.splits if_splits prod.splits)
qed

lemma lockEvmEscrow_success:
  "lockEvmEscrow env js now order s = (tr, Inr tx) \<Longrightarrow>
     \<exists>a. getEscrowAddress env js (sideChainId order s) = Inr a \<and> LockFunds s a \<in> set tr"
  by (auto simp: lockEvmEscrow_def andThen_def Let_def split: sum.splits if_splits prod.splits)

lemma lockCosmosEscrow_events:
  "lockCosmosEscrow env js order s = (tr, r) \<Longrightarrow> \<forall>ev\<in>set tr. lockPhaseEvent s ev"
  by (auto simp: lockCosmosEscrow_def andThen_def Let_def split: sum.splits if_splits prod.splits)

lemma lockCosmosEscrow_success:
  "lockCosmosEscrow env js order s = (tr, Inr tx) \<Longrightarrow> SignAndBroadcast s \<in> set tr"
  by (auto simp: lockCosmosEscrow_def andThen_def Let_def split: sum.splits if_splits prod.splits)

lemma lockSourceEscrow_events:
  "lockSourceEscrow env js now order = (tr, r) \<Longrightarrow> \<forall>ev\<in>set tr. lockPhaseEvent Source ev"
  using lockEvmEscrow_events lockCosmosEscrow_events
  by (auto simp: lockSourceEscrow_def split: if_splits)

lemma lockDestinationEscrow_events:
  "lockDestinationEscrow env js now order = (tr, r) \<Longrightarrow>
     \<forall>ev\<in>set tr. lockPhaseEvent Destination ev"
  using lockEvmEscrow_events lockCosmosEscrow_events
  by (auto simp: lockDestinationEscrow_def split: if_splits)

lemma lockSourceEscrow_success:
  assumes "lockSourceEscrow env js now order = (tr, Inr tx)"
  shows "\<exists>ev\<in>set tr. isLockEvent Source ev"
proof (cases "isStringChain (srcChainId order)")
  case True
  with assms have "lockCosmosEscrow env js order Source = (tr, Inr tx)"
    by (simp add: lockSourceEscrow_def)
  from lockCosmosEscrow_success [OF this] show ?thesis
    by (intro bexI [of _ "SignAndBroadcast Source"]) simp_all
next
  case False
  with assms have "lockEvmEscrow env js now order Source = (tr, Inr tx)"
    by (simp add: lockSourceEscrow_def)
  from lockEvmEscrow_success [OF this] obtain a where "LockFunds Source a \<in> set tr" by blast
  then show ?thesis by (intro bexI [of _ "LockFunds Source a"]) simp_all
qed

lemma lockDestinationEscrow_success:
  assumes "lockDestinationEscrow env js now order = (tr, Inr tx)"
  shows "\<exists>ev\<in>set tr. isLockEvent Destination ev"
proof (cases "isStringChain (dstChainId order)")
  case True
  with assms have "lockCosmosEscrow env js order Destination = (tr, Inr tx)"
    by (simp add: lockDestinationEscrow_def)
  from lockCosmosEscrow_success [OF this] show ?thesis
    by (intro bexI [of _ "SignAndBroadcast Destination"]) simp_all
next
  case False
  with assms have "lockEvmEscrow env js now order Destination = (tr, Inr tx)"
    by (simp add: lockDestinationEscrow_def)
  from lockEvmEscrow_success [OF this] obtain a where "LockFunds Destination a \<in> set tr"
    by blast
  then show ?thesis by (intro bexI [of _ "LockFunds Destination a"]) simp_all
qed

lemma isTransactionConfirmed_events:
  "isTransactionConfirmed env now h c = (tr, b) \<Longrightarrow> \<forall>ev\<in>set tr. waitPhaseEvent ev"
  by (auto simp: isTransactionConfirmed_def split: if_splits)

lemma waitForEscrowConfirmations_events:
  "waitForEscrowConfirmations env startTime now sh dh = (tr, r) \<Longrightarrow>
     \<forall>ev\<in>set tr. waitPhaseEvent ev"
proof (induction env startTime now sh dh arbitrary: tr r
        rule: waitForEscrowConfirmations.induct)
  case (1 env startTime now sh dh)
  obtain tr1 sc where s: "isTransactionConfirmed env now sh Source = (tr1, sc)"
    by (cases "isTransactionConfirmed env now sh Source")
  obtain tr2 dc where d: "isTransactionConfirmed env now dh Destination = (tr2, dc)"
    by (cases "isTransactionConfirmed env now dh Destination")
  note e1 = isTransactionConfirmed_events [OF s] and e2 = isTransactionConfirmed_events [OF d]
  show ?case
  proof (cases "now - startTime < 300000")
    case False
    with "1.prems" show ?thesis by (simp add: waitForEscrowConfirmations.simps [of env startTime now])
  next
    case True
    note inTime = True
    show ?thesis
    proof (cases "sc \<and> dc")
      case True
      with inTime s d "1.prems" e1 e2 show ?thesis
        by (auto simp: waitForEscrowConfirmations.simps [of env startTime now])
    next
      case False
      obtain tr3 r3 where w: "waitForEscrowConfirmations env startTime
          (now + 5000 + int (pollDelay env now)) sh dh = (tr3, r3)"
        by (cases "waitForEscrowConfirmations env startTime
          (now + 5000 + int (pollDelay env now)) sh dh")
      from "1.IH" [OF inTime s [symmetric] d [symmetric] False w]
      have "\<forall>ev\<in>set tr3. waitPhaseEvent ev" .
      with inTime False s d w "1.prems" e1 e2 show ?thesis
        by (auto simp: waitForEscrowConfirmations.simps [of env startTime now])
    qed
  qed
qed

lemma waitForEscrowConfirmations_success:
  "waitForEscrowConfirmations env startTime now sh dh = (tr, Inr u) \<Longrightarrow>
     tr \<noteq> [] \<and> last tr = Logged BothEscrowsConfirmed
     \<and> (\<exists>t\<ge>now. t - startTime < 300000
          \<and> snd (isTransactionConfirmed env t sh Source)
          \<and> snd (isTransactionConfirmed env t dh Destination))"
proof (induction env startTime now sh dh arbitrary: tr
        rule: waitForEscrowConfirmations.induct)
  case (1 env startTime now sh dh)
  obtain tr1 sc where s: "isTransactionConfirmed env now sh Source = (tr1, sc)"
    by (cases "isTransactionConfirmed env now sh Source")
  obtain tr2 dc where d: "isTransactionConfirmed env now dh Destination = (tr2, dc)"
    by (cases "isTransactionConfirmed env now dh Destination")
  show ?case
  proof (cases "now - startTime < 300000")
    case False
    with "1.prems" show ?thesis by (simp add: waitForEscrowConfirmations.simps [of env startTime now])
  next
    case True
    note inTime = True
    show ?thesis
    proof (cases "sc \<and> dc")
      case True
      with inTime s d "1.prems" have "tr = tr1 @ tr2 @ [Logged BothEscrowsConfirmed]"
        by (auto simp: waitForEscrowConfirmations.simps [of env startTime now])
      moreover have "snd (isTransactionConfirmed env now sh Source)
          \<and> snd (isTransactionConfirmed env now dh Destination)"
        using s d True by simp
      ultimately show ?thesis using inTime by auto
    next
      case False
      obtain tr3 r3 where w: "waitForEscrowConfirmations env startTime
          (now + 5000 + int (pollDelay env now)) sh dh = (tr3, r3)"
        by (cases "waitForEscrowConfirmations env startTime
          (now + 5000 + int (pollDelay env now)) sh dh")
      from inTime False s d w "1.prems" have eq: "tr = tr1 @ tr2 @ tr3" "r3 = Inr u"
        by (auto simp: waitForEscrowConfirmations.simps [of env startTime now])
      from "1.IH" [OF inTime s [symmetric] d [symmetric] False] w eq(2)
      have ih: "tr3 \<noteq> [] \<and> last tr3 = Logged BothEscrowsConfirmed
     \<and> (\<exists>t\<ge>now + 5000 + int (pollDelay env now). t - startTime < 300000
          \<and> snd (isTransactionConfirmed env t sh Source)
          \<and> snd (isTransactionConfirmed env t dh Destination))" by simp
      then obtain t where t: "t \<ge> now + 5000 + int (pollDelay env now)"
          "t - startTime < 300000"
          "snd (isTransactionConfirmed env t sh Source)"
          "snd (isTransactionConfirmed env t dh Destination)" by blast
      then have "t \<ge> now" by simp
      with t have "\<exists>t\<ge>now. t - startTime < 300000
          \<and> snd (isTransactionConfirmed env t sh Source)
          \<and> snd (isTransactionConfirmed env t dh Destination)" by blast
      moreover from ih eq have "tr \<noteq> [] \<and> last tr = Logged BothEscrowsConfirmed" by simp
      ultimately show ?thesis by blast
    qed
  qed
qed

lemma revealSecretAndClaim_shape:
  "revealSecretAndClaim env js order = (tr, r) \<Longrightarrow>
     (\<exists>l. tr = [Logged l]) \<or> (\<exists>c l. tr = [c, Logged l] \<and> isClaimEvent Source c)"
  by (auto simp: revealSecretAndClaim_def claimFromEscrow_def claimFromCosmosEscrow_def
        claimFromEvmEscrow_def andThen_def Let_def
        split: sum.splits if_splits prod.splits)

lemma cancelEvmEscrow_events:
  "cancelEvmEscrow env js order s = (tr, r) \<Longrightarrow> \<forall>ev\<in>set tr. cancelPhaseEvent ev"
  by (auto simp: cancelEvmEscrow_def andThen_def split: sum.splits if_splits prod.splits)

lemma handleFailedSwap_events:
  "\<forall>ev\<in>set (handleFailedSwap env js order). cancelPhaseEvent ev"
proof -
  obtain t1 r1 where a: "cancelEvmEscrow env js order Source = (t1, r1)"
    by (cases "cancelEvmEscrow env js order Source")
  obtain t2 r2 where b: "cancelEvmEscrow env js order Destination = (t2, r2)"
    by (cases "cancelEvmEscrow env js order Destination")
  from cancelEvmEscrow_events [OF a] cancelEvmEscrow_events [OF b] a b show ?thesis
    by (auto simp: handleFailedSwap_def cancelEscrows_def andThen_def
          split: sum.splits if_splits prod.splits)
qed



lemma lockPhase_not_claim: "lockPhaseEvent s ev \<Longrightarrow> \<not> isClaimEvent s' ev"
  by (cases ev) auto

lemma waitPhase_not_claim: "waitPhaseEvent ev \<Longrightarrow> \<not> isClaimEvent s' ev"
  by (cases ev) auto

lemma cancelPhase_not_claim: "cancelPhaseEvent ev \<Longrightarrow> \<not> isClaimEvent s' ev"
  by (cases ev) auto



lemma unique_split:
  assumes "\<forall>x\<in>set xs. \<not> P x" and "\<forall>y\<in>set ys. \<not> P y"
    and "xs @ c # ys = pre @ ev # post" and "P ev"
  shows "pre = xs \<and> ev = c \<and> post = ys"
  using assms
proof (induction xs arbitrary: pre)
  case Nil
  from Nil.prems(3) have e: "c # ys = pre @ ev # post" by simp
  show ?case
  proof (cases pre)
    case Nil
    with e show ?thesis by simp
  next
    case (Cons p ps)
    with e have "ys = ps @ ev # post" by simp
    then have "ev \<in> set ys" by simp
    with Nil.prems(2,4) show ?thesis by blast
  qed
next
  case (Cons x xs)
  from Cons.prems(3) have e: "x # (xs @ c # ys) = pre @ ev # post" by simp
  show ?case
  proof (cases pre)
    case Nil
    with e have "ev = x" by simp
    with Cons.prems(1,4) show ?thesis by simp
  next
    case (Cons p ps)
    with e have e': "xs @ c # ys = ps @ ev # post" and px: "p = x" by simp_all
    from Cons.prems(1) have "\<forall>x\<in>set xs. \<not> P x" by simp
    from Cons.IH [OF this Cons.prems(2) e' Cons.prems(4)]
    have "ps = xs \<and> ev = c \<and> post = ys" .
    with Cons px show ?thesis by simp
  qed
qed

lemma executeAtomicSwap_shape:
  assumes "executeAtomicSwap env js now order st = (tr, st')"
  shows "(\<forall>ev\<in>set tr. \<forall>s. \<not> isClaimEvent s ev)
    \<or> (\<exists>tl1 tl2 tw srcTx dstTx c rest.
          lockSourceEscrow env js now order = (tl1, Inr srcTx)
        \<and> lockDestinationEscrow env js now order = (tl2, Inr dstTx)
        \<and> waitForEscrowConfirmations env now now (hash srcTx) (hash dstTx) = (tw, Inr ())
        \<and> isClaimEvent Source c
        \<and> tr = (tl1 @ tl2 @ tw) @ c # rest
        \<and> (\<forall>ev\<in>set rest. \<forall>s. \<not> isClaimEvent s ev))"
proof -
  note hf = handleFailedSwap_events [of env js order]
  obtain tl1 r1 where L1: "lockSourceEscrow env js now order = (tl1, r1)"
    by (cases "lockSourceEscrow env js now order")
  note e1 = lockSourceEscrow_events [OF L1]
  show ?thesis
  proof (cases r1)
    case (Inl e)
    with L1 assms have "tr = tl1 @ [Logged AtomicSwapFailed] @ handleFailedSwap env js order"
      by (auto simp: executeAtomicSwap_def executeAtomicSwap_try_def andThen_def)
    with e1 hf have "\<forall>ev\<in>set tr. \<forall>s. \<not> isClaimEvent s ev"
      by (auto dest: lockPhase_not_claim cancelPhase_not_claim)
    then show ?thesis by (rule disjI1)
  next
    case (Inr srcTx)
    note r1 = Inr
    obtain tl2 r2 where L2: "lockDestinationEscrow env js now order = (tl2, r2)"
      by (cases "lockDestinationEscrow env js now order")
    note e2 = lockDestinationEscrow_events [OF L2]
    show ?thesis
    proof (cases r2)
      case (Inl e)
      with L1 r1 L2 assms
      have "tr = tl1 @ tl2 @ [Logged AtomicSwapFailed] @ handleFailedSwap env js order"
        by (auto simp: executeAtomicSwap_def executeAtomicSwap_try_def andThen_def)
      with e1 e2 hf have "\<forall>ev\<in>set tr. \<forall>s. \<not> isClaimEvent s ev"
        by (auto dest: lockPhase_not_claim cancelPhase_not_claim)
      then show ?thesis by (rule disjI1)
    next
      case (Inr dstTx)
      note r2 = Inr
      obtain tw r3 where W: "waitForEscrowConfirmations env now now (hash srcTx) (hash dstTx)
          = (tw, r3)"
        by (cases "waitForEscrowConfirmations env now now (hash srcTx) (hash dstTx)")
      note e3 = waitForEscrowConfirmations_events [OF W]
      show ?thesis
      proof (cases r3)
        case (Inl e)
        with L1 r1 L2 r2 W assms
        have "tr = tl1 @ tl2 @ tw @ [Logged AtomicSwapFailed] @ handleFailedSwap env js order"
          by (auto simp: executeAtomicSwap_def executeAtomicSwap_try_def andThen_def)
        with e1 e2 e3 hf have "\<forall>ev\<in>set tr. \<forall>s. \<not> isClaimEvent s ev"
          by (auto dest: lockPhase_not_claim cancelPhase_not_claim waitPhase_not_claim)
        then show ?thesis by (rule disjI1)
      next
        case (Inr u)
        note r3 = Inr
        obtain trv r4 where R: "revealSecretAndClaim env js order = (trv, r4)"
          by (cases "revealSecretAndClaim env js order")
        define fin where "fin = (case r4 of Inr u \<Rightarrow> [Logged SwapCompletedSuccessfully]
            | Inl e \<Rightarrow> [Logged AtomicSwapFailed] @ handleFailedSwap env js order)"
        have finE: "\<forall>ev\<in>set fin. \<forall>s. \<not> isClaimEvent s ev"
          using hf by (auto simp: fin_def dest: cancelPhase_not_claim split: sum.splits)
        from L1 r1 L2 r2 W r3 R assms have tr: "tr = (tl1 @ tl2 @ tw) @ trv @ fin"
          by (auto simp: executeAtomicSwap_def executeAtomicSwap_try_def andThen_def fin_def
                split: sum.splits)
        have pre: "\<forall>ev\<in>set (tl1 @ tl2 @ tw). \<forall>s. \<not> isClaimEvent s ev"
          using e1 e2 e3 by (auto dest: lockPhase_not_claim waitPhase_not_claim)
        from revealSecretAndClaim_shape [OF R] show ?thesis
        proof
          assume "\<exists>l. trv = [Logged l]"
          with tr pre finE have "\<forall>ev\<in>set tr. \<forall>s. \<not> isClaimEvent s ev" by auto
          then show ?thesis by (rule disjI1)
        next
          assume "\<exists>c l. trv = [c, Logged l] \<and> isClaimEvent Source c"
          then obtain c l where c: "trv = [c, Logged l]" "isClaimEvent Source c" by blast
          have t: "tr = (tl1 @ tl2 @ tw) @ c # (Logged l # fin)" using tr c by simp
          have f: "\<forall>ev\<in>set (Logged l # fin). \<forall>s. \<not> isClaimEvent s ev"
            using finE by simp
          have W': "waitForEscrowConfirmations env now now (hash srcTx) (hash dstTx)
              = (tw, Inr ())" using W r3 by simp
          have "lockSourceEscrow env js now order = (tl1, Inr srcTx)
            \<and> lockDestinationEscrow env js now order = (tl2, Inr dstTx)
            \<and> waitForEscrowConfirmations env now now (hash srcTx) (hash dstTx) = (tw, Inr ())
            \<and> isClaimEvent Source c
            \<and> tr = (tl1 @ tl2 @ tw) @ c # (Logged l # fin)
            \<and> (\<forall>ev\<in>set (Logged l # fin). \<forall>s. \<not> isClaimEvent s ev)"
            using L1 r1 L2 r2 W' c(2) t f by simp
          then show ?thesis
            apply (intro disjI2)
            apply (rule exI [where x = tl1], rule exI [where x = tl2], rule exI [where x = tw])
            apply (rule exI [where x = srcTx], rule exI [where x = dstTx])
            apply (rule exI [where x = c], rule exI [where x = "Logged l # fin"])
            apply assumption
            done
        qed
      qed
    qed
  qed
qed


text \<open>
  C2. In every run of \<open>executeAtomicSwap\<close>, no claim is ever made on the destination leg,
  and a claim on the source leg comes only after the source lock and then the destination
  lock have been submitted and have returned, and after the confirmation loop has ended
  with both transactions reported confirmed in the same round: the events before the
  claim are exactly those of the two locks and of the loop, the last one being the log
  line that both escrows are confirmed.
\<close>

theorem claim_only_after_both_locks_confirmed:
  assumes "executeAtomicSwap env js now order st = (tr, st')"
  shows "(\<forall>ev\<in>set tr. \<not> isClaimEvent Destination ev)
    \<and> (\<forall>pre ev post. tr = pre @ ev # post \<and> isClaimEvent Source ev \<longrightarrow>
         (\<exists>tl1 tl2 tw srcTx dstTx t.
            lockSourceEscrow env js now order = (tl1, Inr srcTx)
          \<and> lockDestinationEscrow env js now order = (tl2, Inr dstTx)
          \<and> waitForEscrowConfirmations env now now (hash srcTx) (hash dstTx) = (tw, Inr ())
          \<and> pre = tl1 @ tl2 @ tw
          \<and> (\<exists>e\<in>set tl1. isLockEvent Source e)
          \<and> (\<exists>e\<in>set tl2. isLockEvent Destination e)
          \<and> last pre = Logged BothEscrowsConfirmed
          \<and> now \<le> t
          \<and> snd (isTransactionConfirmed env t (hash srcTx) Source)
          \<and> snd (isTransactionConfirmed env t (hash dstTx) Destination)))"
proof -
  from executeAtomicSwap_shape [OF assms] show ?thesis
  proof
    assume "\<forall>ev\<in>set tr. \<forall>s. \<not> isClaimEvent s ev"
    then show ?thesis by auto
  next
    assume "\<exists>tl1 tl2 tw srcTx dstTx c rest.
          lockSourceEscrow env js now order = (tl1, Inr srcTx)
        \<and> lockDestinationEscrow env js now order = (tl2, Inr dstTx)
        \<and> waitForEscrowConfirmations env now now (hash srcTx) (hash dstTx) = (tw, Inr ())
        \<and> isClaimEvent Source c
        \<and> tr = (tl1 @ tl2 @ tw) @ c # rest
        \<and> (\<forall>ev\<in>set rest. \<forall>s. \<not> isClaimEvent s ev)"
    then obtain tl1 tl2 tw srcTx dstTx c rest where
      L1: "lockSourceEscrow env js now order = (tl1, Inr srcTx)" and
      L2: "lockDestinationEscrow env js now order = (tl2, Inr dstTx)" and
      W: "waitForEscrowConfirmations env now now (hash srcTx) (hash dstTx) = (tw, Inr ())" and
      c: "isClaimEvent Source c" and
      tr: "tr = (tl1 @ tl2 @ tw) @ c # rest" and
      rest: "\<forall>ev\<in>set rest. \<forall>s. \<not> isClaimEvent s ev"
      by blast
    have pre: "\<forall>ev\<in>set (tl1 @ tl2 @ tw). \<forall>s. \<not> isClaimEvent s ev"
      using lockSourceEscrow_events [OF L1] lockDestinationEscrow_events [OF L2]
        waitForEscrowConfirmations_events [OF W]
      by (auto dest: lockPhase_not_claim waitPhase_not_claim)
    have cD: "\<not> isClaimEvent Destination c" using c by (cases c) auto
    have noDst: "\<forall>ev\<in>set tr. \<not> isClaimEvent Destination ev"
      using tr pre rest cD by auto
    from waitForEscrowConfirmations_success [OF W] obtain t where
      w: "tw \<noteq> []" "last tw = Logged BothEscrowsConfirmed" "now \<le> t"
        "snd (isTransactionConfirmed env t (hash srcTx) Source)"
        "snd (isTransactionConfirmed env t (hash dstTx) Destination)"
      by blast
    have lastpre: "last (tl1 @ tl2 @ tw) = Logged BothEscrowsConfirmed"
      using w(1,2) by simp
    have "\<forall>pre ev post. tr = pre @ ev # post \<and> isClaimEvent Source ev \<longrightarrow>
         (\<exists>tl1 tl2 tw srcTx dstTx t.
            lockSourceEscrow env js now order = (tl1, Inr srcTx)
          \<and> lockDestinationEscrow env js now order = (tl2, Inr dstTx)
          \<and> waitForEscrowConfirmations env now now (hash srcTx) (hash dstTx) = (tw, Inr ())
          \<and> pre = tl1 @ tl2 @ tw
          \<and> (\<exists>e\<in>set tl1. isLockEvent Source e)
          \<and> (\<exists>e\<in>set tl2. isLockEvent Destination e)
          \<and> last pre = Logged BothEscrowsConfirmed
          \<and> now \<le> t
          \<and> snd (isTransactionConfirmed env t (hash srcTx) Source)
          \<and> snd (isTransactionConfirmed env t (hash dstTx) Destination))"
    proof (intro allI impI)
      fix pre' ev post
      assume a: "tr = pre' @ ev # post \<and> isClaimEvent Source ev"
      have "pre' = tl1 @ tl2 @ tw \<and> ev = c \<and> post = rest"
      proof (rule unique_split [where P = "\<lambda>ev. \<exists>s. isClaimEvent s ev"])
        show "\<forall>x\<in>set (tl1 @ tl2 @ tw). \<not> (\<exists>s. isClaimEvent s x)" using pre by blast
        show "\<forall>y\<in>set rest. \<not> (\<exists>s. isClaimEvent s y)" using rest by blast
        show "(tl1 @ tl2 @ tw) @ c # rest = pre' @ ev # post" using a tr by simp
        show "\<exists>s. isClaimEvent s ev" using a by blast
      qed
      then have p: "pre' = tl1 @ tl2 @ tw" by simp
      show "\<exists>tl1 tl2 tw srcTx dstTx t.
            lockSourceEscrow env js now order = (tl1, Inr srcTx)
          \<and> lockDestinationEscrow env js now order = (tl2, Inr dstTx)
          \<and> waitForEscrowConfirmations env now now (hash srcTx) (hash dstTx) = (tw, Inr ())
          \<and> pre' = tl1 @ tl2 @ tw
          \<and> (\<exists>e\<in>set tl1. isLockEvent Source e)
          \<and> (\<exists>e\<in>set tl2. isLockEvent Destination e)
          \<and> last pre' = Logged BothEscrowsConfirmed
          \<and> now \<le> t
          \<and> snd (isTransactionConfirmed env t (hash srcTx) Source)
          \<and> snd (isTransactionConfirmed env t (hash dstTx) Destination)"
        apply (rule exI [where x = tl1], rule exI [where x = tl2], rule exI [where x = tw])
        apply (rule exI [where x = srcTx], rule exI [where x = dstTx], rule exI [where x = t])
        using L1 L2 W p lockSourceEscrow_success [OF L1] lockDestinationEscrow_success [OF L2]
          lastpre w(3,4,5)
        apply simp
        done
    qed
    with noDst show ?thesis by blast
  qed
qed

theorem claim_only_after_both_locks_confirmed_witness:
  "fst (executeAtomicSwap example_env scenario_js 1000 (scenario_order 1000) initial_state)
     = [AllowanceQuery ''0xC02aaA39b223FE8D0A0e5C4F27eAD9083C756Cc2'' ''0xEscrowEth'',
        Approve ''0xC02aaA39b223FE8D0A0e5C4F27eAD9083C756Cc2'' ''0xEscrowEth'' 1,
        LockFunds Source ''0xEscrowEth'', SignAndBroadcast Destination,
        GetTransactionReceipt ''0xlock'', Logged BothEscrowsConfirmed,
        ClaimFunds Source ''0xEscrowEth'', Logged SecretRevealed,
        Logged SwapCompletedSuccessfully]
   \<and> (\<exists>tl1 tl2 tw srcTx dstTx.
         lockSourceEscrow example_env scenario_js 1000 (scenario_order 1000) = (tl1, Inr srcTx)
       \<and> lockDestinationEscrow example_env scenario_js 1000 (scenario_order 1000)
           = (tl2, Inr dstTx)
       \<and> waitForEscrowConfirmations example_env 1000 1000 (hash srcTx) (hash dstTx)
           = (tw, Inr ())
       \<and> [AllowanceQuery ''0xC02aaA39b223FE8D0A0e5C4F27eAD9083C756Cc2'' ''0xEscrowEth'',
           Approve ''0xC02aaA39b223FE8D0A0e5C4F27eAD9083C756Cc2'' ''0xEscrowEth'' 1,
           LockFunds Source ''0xEscrowEth'', SignAndBroadcast Destination,
           GetTransactionReceipt ''0xlock'', Logged BothEscrowsConfirmed] = tl1 @ tl2 @ tw)"
proof -
  let ?pre = "[AllowanceQuery ''0xC02aaA39b223FE8D0A0e5C4F27eAD9083C756Cc2'' ''0xEscrowEth'',
           Approve ''0xC02aaA39b223FE8D0A0e5C4F27eAD9083C756Cc2'' ''0xEscrowEth'' 1,
           LockFunds Source ''0xEscrowEth'', SignAndBroadcast Destination,
           GetTransactionReceipt ''0xlock'', Logged BothEscrowsConfirmed]"
  let ?post = "[Logged SecretRevealed, Logged SwapCompletedSuccessfully]"
  have a: "executeAtomicSwap example_env scenario_js 1000 (scenario_order 1000) initial_state
     = (?pre @ ClaimFunds Source ''0xEscrowEth'' # ?post, initial_state)"
    by (simp add: executor_defs example_env_def scenario_js_def scenario_order_def
          initial_state_def waitForEscrowConfirmations.simps [of _ 1000 1000])
  have "\<exists>tl1 tl2 tw srcTx dstTx t.
            lockSourceEscrow example_env scenario_js 1000 (scenario_order 1000)
              = (tl1, Inr srcTx)
          \<and> lockDestinationEscrow example_env scenario_js 1000 (scenario_order 1000)
              = (tl2, Inr dstTx)
          \<and> waitForEscrowConfirmations example_env 1000 1000 (hash srcTx) (hash dstTx)
              = (tw, Inr ())
          \<and> ?pre = tl1 @ tl2 @ tw
          \<and> (\<exists>e\<in>set tl1. isLockEvent Source e)
          \<and> (\<exists>e\<in>set tl2. isLockEvent Destination e)
          \<and> last ?pre = Logged BothEscrowsConfirmed
          \<and> 1000 \<le> t
          \<and> snd (isTransactionConfirmed example_env t (hash srcTx) Source)
          \<and> snd (isTransactionConfirmed example_env t (hash dstTx) Destination)"
    using claim_only_after_both_locks_confirmed [OF a, THEN conjunct2, rule_format,
        of ?pre "ClaimFunds Source ''0xEscrowEth''" ?post]
    by simp
  then have "\<exists>tl1 tl2 tw srcTx dstTx.
         lockSourceEscrow example_env scenario_js 1000 (scenario_order 1000) = (tl1, Inr srcTx)
       \<and> lockDestinationEscrow example_env scenario_js 1000 (scenario_order 1000)
           = (tl2, Inr dstTx)
       \<and> waitForEscrowConfirmations example_env 1000 1000 (hash srcTx) (hash dstTx)
           = (tw, Inr ())
       \<and> ?pre = tl1 @ tl2 @ tw"
    by blast
  with a show ?thesis by simp
qed







section \<open>Properties of the timeout check\<close>







text \<open>
  The transaction that cancels an escrow is sent by \<open>cancel\<close> alone.
\<close>

lemma cancel_sends_transaction:
  "filter isContractCall (fst (cancel sendCancel escrowAddress imm))
     = [ContractCancel escrowAddress]"
  by (simp add: cancel_def)



text \<open>
  The times are compared in whole seconds: half a second after \<open>dstCancellation\<close> (3601 s)
  a run of \<open>checkAndHandleTimeout\<close> leaves the swap tracked and logs nothing.
\<close>

lemma timeout_tick_in_the_same_second:
  "checkAndHandleTimeout 3601500 [(''0xdef'', example_swap (timelocks_with 7201 3601) 1000)]
     = ([], [(''0xdef'', example_swap (timelocks_with 7201 3601) 1000)])"
  by (simp add: checkAndHandleTimeout_def timeoutStep_def example_swap_def timelocks_with_def)

section \<open>Properties of the admission of orders\<close>

lemma executeAtomicSwap_trace:
  "\<exists>post. fst (executeAtomicSwap env js now order st)
     = fst (executeAtomicSwap_try env js now order) @ post"
  by (cases "executeAtomicSwap_try env js now order")
     (auto simp: executeAtomicSwap_def split: sum.splits)

lemma executeAtomicSwap_trace_state:
  "fst (executeAtomicSwap env js now order st) = fst (executeAtomicSwap env js now order st')"
  by (cases "executeAtomicSwap_try env js now order")
     (auto simp: executeAtomicSwap_def split: sum.splits)

lemma analyzeAndExecuteOrder_trace_state:
  "fst (analyzeAndExecuteOrder env js http now order st)
     = fst (analyzeAndExecuteOrder env js http now order (st\<lparr>activeOrders := ao\<rparr>))"
  using executeAtomicSwap_trace_state
  by (auto simp: analyzeAndExecuteOrder_def split: sum.splits)

lemma processNewOrders_single:
  "orderHash order \<notin> processedOrders st \<Longrightarrow>
     fst (processNewOrders env js http now [order] st)
       = Logged (NewOrderDetected (take 10 (orderHash order)))
           # fst (analyzeAndExecuteOrder env js http now order st)"
  by (simp add: split_def)

lemma favourable_decision:
  "\<exists>d st'. analyzeOrder scenario_js favourable_http 1000 1000 empty_caches (scenario_order 1000)
      = Inr (d, st') \<and> shouldFill d \<and> expectedProfitUsd d = Fin (193 / 2)"
  by (simp add: analyzer_defs scenario_order_def favourable_http_def scenario_js_def
        empty_caches_def shouldFillOrder_def MIN_PROFIT_USD_def MIN_PROFIT_MARGIN_def
        checkLiquidityAvailability_def)

lemma scenario_swap_trace:
  "executeAtomicSwap example_env scenario_js now (scenario_order 1000) st
     = ([AllowanceQuery ''0xC02aaA39b223FE8D0A0e5C4F27eAD9083C756Cc2'' ''0xEscrowEth'',
        Approve ''0xC02aaA39b223FE8D0A0e5C4F27eAD9083C756Cc2'' ''0xEscrowEth'' 1,
        LockFunds Source ''0xEscrowEth'', SignAndBroadcast Destination,
        GetTransactionReceipt ''0xlock'', Logged BothEscrowsConfirmed,
        ClaimFunds Source ''0xEscrowEth'', Logged SecretRevealed,
        Logged SwapCompletedSuccessfully],
        st\<lparr>activeOrders := AList.delete ''0x123'' (activeOrders st)\<rparr>)"
  by (simp add: executor_defs example_env_def scenario_js_def scenario_order_def
        waitForEscrowConfirmations.simps [of _ now now])

text \<open>
  C4. The claim: a second admission attempt for a hashlock that is already tracked is a
  no-op, with no further chain action.

  What \<open>processNewOrders\<close> does: it skips an order only when its hash is in
  \<open>processedOrders\<close>, where a hash is put once \<open>analyzeAndExecuteOrder\<close> has returned.
  \<open>activeOrders\<close>, which tracks the swaps in progress, is not looked at: an order that is not
  yet in \<open>processedOrders\<close> is analysed and executed exactly as if nothing were tracked,
  also when it is tracked already; when the analysis says to fill, the swap (locks
  included) is run again.
\<close>

theorem tracked_order_is_admitted_again:
  assumes "orderHash order \<notin> processedOrders st"
  shows "fst (processNewOrders env js http now [order] st)
           = Logged (NewOrderDetected (take 10 (orderHash order)))
               # fst (analyzeAndExecuteOrder env js http now order (st\<lparr>activeOrders := []\<rparr>))
     \<and> (\<forall>d as'. analyzeOrder js http now now (analyzerState st) order = Inr (d, as')
            \<and> shouldFill d \<longrightarrow>
          (\<exists>post. fst (processNewOrders env js http now [order] st)
             = Logged (NewOrderDetected (take 10 (orderHash order)))
                 # fst (executeAtomicSwap_try env js now order) @ post))"
proof -
  have a: "fst (processNewOrders env js http now [order] st)
           = Logged (NewOrderDetected (take 10 (orderHash order)))
               # fst (analyzeAndExecuteOrder env js http now order (st\<lparr>activeOrders := []\<rparr>))"
    using processNewOrders_single [OF assms]
      analyzeAndExecuteOrder_trace_state [of env js http now order st "[]"]
    by simp
  have b: "\<exists>post. fst (processNewOrders env js http now [order] st)
             = Logged (NewOrderDetected (take 10 (orderHash order)))
                 # fst (executeAtomicSwap_try env js now order) @ post"
    if d: "analyzeOrder js http now now (analyzerState st) order = Inr (d, as')"
      and f: "shouldFill d" for d as'
  proof -
    let ?st = "st\<lparr>analyzerState := as',
                  activeOrders := AList.update (orderHash order) order (activeOrders st)\<rparr>"
    from d f have "fst (analyzeAndExecuteOrder env js http now order st)
        = fst (executeAtomicSwap env js now order ?st)"
      by (simp add: analyzeAndExecuteOrder_def)
    with executeAtomicSwap_trace [of env js now order ?st] processNewOrders_single [OF assms]
    show ?thesis by auto
  qed
  from a b show ?thesis by blast
qed

theorem tracked_order_is_admitted_again_witness:
  "fst (processNewOrders example_env scenario_js favourable_http 3000 [scenario_order 1000]
          swap_in_progress)
     = [Logged (NewOrderDetected ''0x123''),
        AllowanceQuery ''0xC02aaA39b223FE8D0A0e5C4F27eAD9083C756Cc2'' ''0xEscrowEth'',
        Approve ''0xC02aaA39b223FE8D0A0e5C4F27eAD9083C756Cc2'' ''0xEscrowEth'' 1,
        LockFunds Source ''0xEscrowEth'', SignAndBroadcast Destination,
        GetTransactionReceipt ''0xlock'', Logged BothEscrowsConfirmed,
        ClaimFunds Source ''0xEscrowEth'', Logged SecretRevealed,
        Logged SwapCompletedSuccessfully]
   \<and> map_of (activeOrders swap_in_progress) ''0x123'' = Some (scenario_order 1000)
   \<and> ''0x123'' \<notin> processedOrders swap_in_progress"
proof -
  from favourable_decision obtain d0 as0 where
    d0: "analyzeOrder scenario_js favourable_http 1000 1000 empty_caches (scenario_order 1000)
      = Inr (d0, as0)"
    by blast
  then have st: "swap_in_progress =
      \<lparr>processedOrders = {}, activeOrders = [(''0x123'', scenario_order 1000)],
        analyzerState = as0\<rparr>"
    by (simp add: swap_in_progress_def)
  have h: "orderHash (scenario_order 1000) \<notin> processedOrders swap_in_progress"
    by (simp add: st)
  have f: "\<exists>d as'. analyzeOrder scenario_js favourable_http 3000 3000
        (analyzerState swap_in_progress) (scenario_order 1000) = Inr (d, as') \<and> shouldFill d"
    by (simp add: swap_in_progress_def analyzer_defs scenario_order_def favourable_http_def
          scenario_js_def empty_caches_def shouldFillOrder_def MIN_PROFIT_USD_def
          MIN_PROFIT_MARGIN_def checkLiquidityAvailability_def cacheFresh_def CACHE_TTL_def)
  then obtain d as' where
    d: "analyzeOrder scenario_js favourable_http 3000 3000
        (analyzerState swap_in_progress) (scenario_order 1000) = Inr (d, as')" "shouldFill d"
    by blast
  have o: "take 10 (orderHash (scenario_order 1000)) = ''0x123''"
    by (simp add: scenario_order_def)
  from tracked_order_is_admitted_again [OF h, of example_env scenario_js favourable_http 3000]
  have "fst (processNewOrders example_env scenario_js favourable_http 3000
               [scenario_order 1000] swap_in_progress)
      = Logged (NewOrderDetected (take 10 (orderHash (scenario_order 1000))))
          # fst (analyzeAndExecuteOrder example_env scenario_js favourable_http 3000
                   (scenario_order 1000) (swap_in_progress\<lparr>activeOrders := []\<rparr>))"
    by (elim conjE)
  moreover from d
  have "fst (analyzeAndExecuteOrder example_env scenario_js favourable_http 3000
                   (scenario_order 1000) (swap_in_progress\<lparr>activeOrders := []\<rparr>))
      = fst (executeAtomicSwap example_env scenario_js 3000 (scenario_order 1000)
               (swap_in_progress\<lparr>analyzerState := as',
                  activeOrders := AList.update (orderHash (scenario_order 1000))
                     (scenario_order 1000) []\<rparr>))"
    by (simp add: analyzeAndExecuteOrder_def)
  ultimately show ?thesis
    by (simp add: scenario_swap_trace o st)
qed

text \<open>
  \<open>Resolver.addSwapOrder\<close> has no test either: it sets the entry of the hashlock, replacing
  a record that is there.
\<close>

lemma addSwapOrder_replaces:
  "map_of (snd (addSwapOrder swap m)) (hashlock (immutables swap)) = Some swap"
  by (simp add: addSwapOrder_def update_conv')

end
